theory Spec2Isabelle
  imports Complex_Main
begin

section \<open>Python strings and paths\<close>

text \<open>
  The backend (\<^verbatim>\<open>src/module/gui/backend.py\<close>) works on Python \<^verbatim>\<open>str\<close> values and on
  \<^verbatim>\<open>pathlib.Path\<close> objects. Strings are character lists. The three string methods the
  source calls are \<^verbatim>\<open>str.endswith\<close>, \<^verbatim>\<open>str.removesuffix\<close> and
  \<^verbatim>\<open>str.rsplit('/', 1)[-1]\<close>.
\<close>

definition endswith :: "string \<Rightarrow> string \<Rightarrow> bool" where
  "endswith s suf = (length suf \<le> length s \<and> drop (length s - length suf) s = suf)"

definition removesuffix :: "string \<Rightarrow> string \<Rightarrow> string" where
  "removesuffix s suf =
     (if suf \<noteq> [] \<and> endswith s suf then take (length s - length suf) s else s)"

text \<open>\<^verbatim>\<open>s.rsplit('/', 1)[-1]\<close>: what follows the last slash, the whole string without one.\<close>

definition rsplit_last :: "string \<Rightarrow> string" where
  "rsplit_last s = rev (takeWhile (\<lambda>c. c \<noteq> CHR ''/'') (rev s))"

text \<open>\<^verbatim>\<open>s.split(sep)\<close> for a one-character separator: never empty, keeps empty pieces.\<close>

fun split_sep :: "char \<Rightarrow> string \<Rightarrow> string list" where
  "split_sep sep [] = [[]]"
| "split_sep sep (c # cs) =
     (if c = sep then [] # split_sep sep cs
      else (case split_sep sep cs of
              [] \<Rightarrow> [[c]]
            | w # ws \<Rightarrow> (c # w) # ws))"

text \<open>
  A \<^verbatim>\<open>pathlib.PurePosixPath\<close> is its root (\<^verbatim>\<open>''\<close>, \<^verbatim>\<open>'/'\<close> or \<^verbatim>\<open>'//'\<close>) and its
  components. Parsing a string splits it at \<^verbatim>\<open>/\<close> and drops the empty pieces and the
  \<^verbatim>\<open>.\<close> pieces; exactly two leading slashes give the root \<^verbatim>\<open>//\<close>, any other number
  of leading slashes the root \<^verbatim>\<open>/\<close>.
\<close>

record pure_path =
  root :: string
  comps :: "string list"

definition splitroot :: "string \<Rightarrow> string" where
  "splitroot s =
     (case s of
        c1 # c2 # c3 # _ \<Rightarrow>
          (if c1 = CHR ''/'' then
             (if c2 = CHR ''/'' \<and> c3 \<noteq> CHR ''/'' then ''//'' else ''/'')
           else [])
      | [c1, c2] \<Rightarrow>
          (if c1 = CHR ''/'' then (if c2 = CHR ''/'' then ''//'' else ''/'') else [])
      | [c1] \<Rightarrow> (if c1 = CHR ''/'' then ''/'' else [])
      | [] \<Rightarrow> [])"

definition Path :: "string \<Rightarrow> pure_path" where
  "Path s = \<lparr> root = splitroot s,
              comps = filter (\<lambda>x. x \<noteq> [] \<and> x \<noteq> ''.'') (split_sep CHR ''/'' s) \<rparr>"

text \<open>\<^verbatim>\<open>path.parts\<close>: the root, when there is one, then the components.\<close>

definition parts :: "pure_path \<Rightarrow> string list" where
  "parts p = (if root p = [] then [] else [root p]) @ comps p"

text \<open>\<^verbatim>\<open>path.name\<close>: the last component, the empty string when there is none.\<close>

definition path_name :: "pure_path \<Rightarrow> string" where
  "path_name p = (case rev (comps p) of [] \<Rightarrow> [] | n # _ \<Rightarrow> n)"

text \<open>\<^verbatim>\<open>path.parent\<close>: the last component dropped; a path without components is its own parent.\<close>

definition parent :: "pure_path \<Rightarrow> pure_path" where
  "parent p = p \<lparr> comps := butlast (comps p) \<rparr>"

text \<open>\<^verbatim>\<open>path / s\<close>: the string is parsed; an absolute one replaces the path.\<close>

definition path_join :: "pure_path \<Rightarrow> string \<Rightarrow> pure_path" where
  "path_join p s =
     (if root (Path s) \<noteq> [] then Path s
      else p \<lparr> comps := comps p @ comps (Path s) \<rparr>)"

section \<open>Material name derivation\<close>

text \<open>
  The loop of \<^verbatim>\<open>CoreBackend.pick_vmt\<close> over \<^verbatim>\<open>reversed(path.parts[:-1])\<close>. The state of
  the loop is \<^verbatim>\<open>namePath\<close>; the result also says whether the loop left through
  \<^verbatim>\<open>break\<close> (\<^verbatim>\<open>useNamePath\<close>).
\<close>

fun name_loop :: "string list \<Rightarrow> string \<Rightarrow> string \<times> bool" where
  "name_loop [] namePath = (namePath, False)"
| "name_loop (component # rest) namePath =
     (if component = ''materials'' then (namePath, True)
      else name_loop rest (component @ ''/'' @ namePath))"

definition vmt_name :: "string \<Rightarrow> string" where
  "vmt_name pathStr =
     (let path = Path pathStr;
          name = removesuffix (path_name path) ''.vmt'';
          (namePath, useNamePath) = name_loop (rev (butlast (parts path))) []
      in if useNamePath then namePath @ name else name)"

section \<open>Roles, images and the channel store\<close>

datatype ImageRole = Albedo | Roughness | Metallic | Emit | AO | Normal | Height

text \<open>
  The members of \<^verbatim>\<open>GameTarget\<close> and \<^verbatim>\<open>MaterialMode\<close> (declared in
  \<^verbatim>\<open>core/material.py\<close>), as the drop-down lists of the main window enumerate them.
\<close>

datatype GameTarget = V2007 | V2011 | VGMOD | V2023

datatype MaterialMode =
    PBRModel | PhongEnvmap | PhongEnvmapAlpha | PhongEnvmapEmit
  | PBRBrush | Envmap | EnvmapAlpha | EnvmapEmit

text \<open>
  An \<^verbatim>\<open>Image\<close> (\<^verbatim>\<open>core/io/image.py\<close>) is kept as its size, its number of colour
  components and where its pixel data come from: a bitmap that was decoded (told apart by a
  number) or one flat colour.
\<close>

datatype pixels = Bitmap nat | Flat "real list"

record image =
  size_px :: "nat \<times> nat"
  channels :: nat
  pixels :: pixels

datatype colour_mode = RGB | L

fun mode_channels :: "colour_mode \<Rightarrow> nat" where
  "mode_channels RGB = 3"
| "mode_channels L = 1"

text \<open>
  Modelled from the spec: \<^verbatim>\<open>Image.blank\<close> (\<^verbatim>\<open>core/io/image.py\<close>, not among the
  sources). "Missing optional channels are synthesized as flat-color bitmaps": an image of
  the given size, one component per entry of the colour, every pixel that colour.
\<close>

definition blank :: "nat \<times> nat \<Rightarrow> real list \<Rightarrow> image" where
  "blank sz colour = \<lparr> size_px = sz, channels = length colour, pixels = Flat colour \<rparr>"

text \<open>
  Modelled from the spec: \<^verbatim>\<open>texops.normalize\<close> (\<^verbatim>\<open>core/texops.py\<close>, not among the
  sources). A channel is "resized to" the size it is given "(stretch to exact dimensions,
  no cropping) and converted to its canonical color mode". The call sites that pass no size
  (\<^verbatim>\<open>size\<close> left at its default) leave the size as it is: the backend takes
  \<^verbatim>\<open>normal.size\<close> as the size of the material whose normal map it normalises so.
\<close>

definition texops_normalize :: "image \<Rightarrow> (nat \<times> nat) option \<Rightarrow> colour_mode \<Rightarrow> image" where
  "texops_normalize img sz m =
     img \<lparr> size_px := (case sz of None \<Rightarrow> size_px img | Some s \<Rightarrow> s),
           channels := mode_channels m \<rparr>"

datatype error =
    DecodeError string
  | AssertionError string
  | InterruptedError
  | IOError pure_path
  | OSError string

text \<open>The class attributes of \<^verbatim>\<open>CoreBackend\<close>.\<close>

record core_backend =
  albedo :: "image option"
  roughness :: "image option"
  metallic :: "image option"
  emit :: "image option"
  ao :: "image option"
  normal :: "image option"
  height :: "image option"
  albedoPath :: "string option"
  roughnessPath :: "string option"
  metallicPath :: "string option"
  emitPath :: "string option"
  aoPath :: "string option"
  normalPath :: "string option"
  heightPath :: "string option"
  path :: "pure_path option"
  name :: string
  game :: GameTarget
  mode :: MaterialMode

text \<open>\<^verbatim>\<open>self.__getattribute__(role)\<close> and \<^verbatim>\<open>self.__setattr__(role, v)\<close>.\<close>

fun get_image :: "ImageRole \<Rightarrow> core_backend \<Rightarrow> image option" where
  "get_image Albedo b = albedo b"
| "get_image Roughness b = roughness b"
| "get_image Metallic b = metallic b"
| "get_image Emit b = emit b"
| "get_image AO b = ao b"
| "get_image Normal b = normal b"
| "get_image Height b = height b"

fun set_image :: "ImageRole \<Rightarrow> image option \<Rightarrow> core_backend \<Rightarrow> core_backend" where
  "set_image Albedo v b = b \<lparr> albedo := v \<rparr>"
| "set_image Roughness v b = b \<lparr> roughness := v \<rparr>"
| "set_image Metallic v b = b \<lparr> metallic := v \<rparr>"
| "set_image Emit v b = b \<lparr> emit := v \<rparr>"
| "set_image AO v b = b \<lparr> ao := v \<rparr>"
| "set_image Normal v b = b \<lparr> normal := v \<rparr>"
| "set_image Height v b = b \<lparr> height := v \<rparr>"

text \<open>The same for the attribute \<^verbatim>\<open>role+'Path'\<close>.\<close>

fun get_path :: "ImageRole \<Rightarrow> core_backend \<Rightarrow> string option" where
  "get_path Albedo b = albedoPath b"
| "get_path Roughness b = roughnessPath b"
| "get_path Metallic b = metallicPath b"
| "get_path Emit b = emitPath b"
| "get_path AO b = aoPath b"
| "get_path Normal b = normalPath b"
| "get_path Height b = heightPath b"

fun set_path :: "ImageRole \<Rightarrow> string option \<Rightarrow> core_backend \<Rightarrow> core_backend" where
  "set_path Albedo v b = b \<lparr> albedoPath := v \<rparr>"
| "set_path Roughness v b = b \<lparr> roughnessPath := v \<rparr>"
| "set_path Metallic v b = b \<lparr> metallicPath := v \<rparr>"
| "set_path Emit v b = b \<lparr> emitPath := v \<rparr>"
| "set_path AO v b = b \<lparr> aoPath := v \<rparr>"
| "set_path Normal v b = b \<lparr> normalPath := v \<rparr>"
| "set_path Height v b = b \<lparr> heightPath := v \<rparr>"

text \<open>
  A backend as the class attributes of \<^verbatim>\<open>CoreBackend\<close> initialise it. The defaults of
  \<^verbatim>\<open>game\<close> and \<^verbatim>\<open>mode\<close> are those of \<^verbatim>\<open>Preset\<close>, which is not among the sources:
  they are arguments.
\<close>

definition CoreBackend :: "GameTarget \<Rightarrow> MaterialMode \<Rightarrow> core_backend" where
  "CoreBackend g m =
     \<lparr> albedo = None, roughness = None, metallic = None, emit = None, ao = None,
       normal = None, height = None,
       albedoPath = None, roughnessPath = None, metallicPath = None, emitPath = None,
       aoPath = None, normalPath = None, heightPath = None,
       path = None, name = ''ThisShouldNeverAppear'', game = g, mode = m \<rparr>"

section \<open>What the backend calls outside the repository's sources\<close>

record material =
  mat_mode :: MaterialMode
  mat_target :: GameTarget
  mat_size :: "nat \<times> nat"
  mat_name :: string
  mat_albedo :: image
  mat_roughness :: image
  mat_metallic :: image
  mat_emit :: "image option"
  mat_ao :: "image option"
  mat_normal :: image
  mat_height :: "image option"

record texture =
  tex_name :: string
  tex_image :: image

text \<open>
  The decoders (\<^verbatim>\<open>QtIOBackend\<close>, where \<open>None\<close> stands for the exception of a file that
  does not decode), the two conversions between a \<^verbatim>\<open>QImage\<close> (the type \<open>'q\<close>) and an
  \<^verbatim>\<open>Image\<close>, the texture and descriptor builders of \<^verbatim>\<open>core\<close>, the table of texture
  versions, the file system (which paths can be written), the answer of the save dialog
  (empty when it was dismissed) and whether a process can be started.
\<close>

record 'q io =
  load :: "string \<Rightarrow> image option"
  load_qimage :: "string \<Rightarrow> 'q option"
  image_to_qimage :: "image \<Rightarrow> 'q"
  qimage_to_image :: "'q \<Rightarrow> image"
  core_export :: "material \<Rightarrow> texture list"
  core_make_vmt :: "material \<Rightarrow> string"
  vtf_version :: "GameTarget \<Rightarrow> nat"
  writable :: "pure_path \<Rightarrow> bool"
  getSaveFileName :: string
  popen :: "string list \<Rightarrow> bool"

text \<open>
  A call that may raise returns the backend as the call left it and either the exception
  or the value.
\<close>

definition bind_raise ::
  "'s \<times> (error + 'a) \<Rightarrow> ('s \<Rightarrow> 'a \<Rightarrow> 's \<times> (error + 'b)) \<Rightarrow> 's \<times> (error + 'b)" where
  "bind_raise r f = (case r of (s, Inl e) \<Rightarrow> (s, Inl e) | (s, Inr a) \<Rightarrow> f s a)"

section \<open>The channel store: convert and pick\<close>

definition decode :: "'q io \<Rightarrow> string \<Rightarrow> ('q \<times> image) option" where
  "decode env p =
     (if endswith p ''.vtf'' \<or> endswith p ''.hdr'' then
        (case load env p of
           None \<Rightarrow> None
         | Some converted \<Rightarrow> Some (image_to_qimage env converted, converted))
      else
        (case load_qimage env p of
           None \<Rightarrow> None
         | Some img \<Rightarrow> Some (img, qimage_to_image env img)))"

definition convert ::
  "'q io \<Rightarrow> string \<Rightarrow> ImageRole \<Rightarrow> core_backend \<Rightarrow> core_backend \<times> (error + 'q \<times> image)" where
  "convert env p role b =
     (case decode env p of
        None \<Rightarrow> (b, Inl (DecodeError p))
      | Some (img, converted) \<Rightarrow> (set_image role (Some converted) b, Inr (img, converted)))"

definition pick ::
  "'q io \<Rightarrow> string option \<Rightarrow> ImageRole \<Rightarrow> core_backend \<Rightarrow> core_backend \<times> (error + 'q option)" where
  "pick env p role b =
     (let b1 = set_path role p b
      in case p of
           None \<Rightarrow> (set_image role None b1, Inr None)
         | Some s \<Rightarrow>
             (if s = [] then (set_image role None b1, Inr None)
              else bind_raise (convert env s role b1) (\<lambda>b2 r. (b2, Inr (Some (fst r))))))"

definition pick_vmt :: "string \<Rightarrow> core_backend \<Rightarrow> core_backend" where
  "pick_vmt pathStr b = b \<lparr> path := Some (parent (Path pathStr)), name := vmt_name pathStr \<rparr>"

section \<open>Assembling the material\<close>

definition getImage ::
  "'q io \<Rightarrow> bool \<Rightarrow> ImageRole \<Rightarrow> core_backend \<Rightarrow> core_backend \<times> (error + image option)" where
  "getImage env noCache role b =
     (if noCache then
        (case get_path role b of
           None \<Rightarrow> (b, Inr None)
         | Some rolePath \<Rightarrow>
             bind_raise (convert env rolePath role b) (\<lambda>b1 r. (b1, Inr (Some (snd r)))))
      else (b, Inr (get_image role b)))"

text \<open>\<^verbatim>\<open>x or d\<close> on an \<^verbatim>\<open>Image|None\<close>: an image object is true.\<close>

fun or_else :: "image option \<Rightarrow> image \<Rightarrow> image" where
  "or_else None d = d"
| "or_else (Some i) d = i"

text \<open>
  Lines 134 to 154 of \<^verbatim>\<open>make_material\<close>: the defaults of the optional channels and
  the call of the \<^verbatim>\<open>Material\<close> constructor, on the images that \<^verbatim>\<open>getImage\<close> gave.
\<close>

definition construct_material ::
  "core_backend \<Rightarrow> image \<Rightarrow> image \<Rightarrow> image option \<Rightarrow> image option \<Rightarrow> image option
   \<Rightarrow> image option \<Rightarrow> image option \<Rightarrow> material" where
  "construct_material b albedo1 roughness1 metallic0 emit0 ao0 normal0 height0 =
     (let metallic1 = or_else metallic0 (blank (size_px roughness1) [0]);
          normal1 = or_else normal0 (blank (size_px roughness1) [1/2, 1/2, 1]);
          height1 = or_else height0 (blank (size_px normal1) [1/2])
      in \<lparr> mat_mode = mode b,
           mat_target = game b,
           mat_size = size_px normal1,
           mat_name = name b,
           mat_albedo = texops_normalize albedo1 None RGB,
           mat_roughness = texops_normalize roughness1 (Some (size_px normal1)) L,
           mat_metallic = texops_normalize metallic1 (Some (size_px normal1)) L,
           mat_emit = (case emit0 of
                         None \<Rightarrow> None
                       | Some e \<Rightarrow> Some (texops_normalize e (Some (size_px albedo1)) L)),
           mat_ao = (case ao0 of
                       None \<Rightarrow> None
                     | Some a \<Rightarrow> Some (texops_normalize a (Some (size_px albedo1)) L)),
           mat_normal = texops_normalize normal1 None RGB,
           mat_height = Some (texops_normalize height1 (Some (size_px normal1)) L) \<rparr>)"

definition make_material ::
  "'q io \<Rightarrow> bool \<Rightarrow> core_backend \<Rightarrow> core_backend \<times> (error + material)" where
  "make_material env noCache b0 =
     bind_raise (getImage env noCache Albedo b0) (\<lambda>b1 albedo0.
     case albedo0 of
       None \<Rightarrow> (b1, Inl (AssertionError ''A basetexture is required to convert the material!''))
     | Some albedo1 \<Rightarrow>
     bind_raise (getImage env noCache Roughness b1) (\<lambda>b2 roughness0.
     case roughness0 of
       None \<Rightarrow> (b2, Inl (AssertionError ''A roughness map is required to convert the material!''))
     | Some roughness1 \<Rightarrow>
     bind_raise (getImage env noCache Metallic b2) (\<lambda>b3 metallic0.
     bind_raise (getImage env noCache Emit b3) (\<lambda>b4 emit0.
     bind_raise (getImage env noCache AO b4) (\<lambda>b5 ao0.
     bind_raise (getImage env noCache Normal b5) (\<lambda>b6 normal0.
     bind_raise (getImage env noCache Height b6) (\<lambda>b7 height0.
       (b7, Inr (construct_material b7 albedo1 roughness1 metallic0 emit0 ao0 normal0
                   height0)))))))))"

section \<open>Writing the material\<close>

text \<open>
  The disk is the list of the files written so far, oldest first: the descriptor text, or
  an image saved as a texture of some version.
\<close>

datatype file_content = Descriptor string | VTF image nat

type_synonym disk = "(pure_path \<times> file_content) list"

text \<open>The loop \<^verbatim>\<open>for texture in textures\<close> of \<^verbatim>\<open>CoreBackend.export\<close>.\<close>

fun save_textures ::
  "'q io \<Rightarrow> pure_path \<Rightarrow> string \<Rightarrow> nat \<Rightarrow> texture list \<Rightarrow> disk \<Rightarrow> disk \<times> (error + unit)" where
  "save_textures env dir isolatedName textureVersion [] d = (d, Inr ())"
| "save_textures env dir isolatedName textureVersion (t # ts) d =
     (let fullPath = path_join dir (isolatedName @ tex_name t @ ''.vtf'')
      in if writable env fullPath then
           save_textures env dir isolatedName textureVersion ts
             (d @ [(fullPath, VTF (tex_image t) textureVersion)])
         else (d, Inl (IOError fullPath)))"

text \<open>
  \<^verbatim>\<open>CoreBackend.export\<close> assigns to the material it is given and writes files: the state
  it returns is that material and the disk.
\<close>

definition export ::
  "'q io \<Rightarrow> core_backend \<Rightarrow> material \<Rightarrow> disk \<Rightarrow> (material \<times> disk) \<times> (error + unit)" where
  "export env b m d =
     (case path b of
        None \<Rightarrow>
          ((m, d), Inl (AssertionError ''Something has gone very very wrong. Find a developer!''))
      | Some dir \<Rightarrow>
          (let m1 = m \<lparr> mat_name := name b \<rparr>;
               textures = core_export env m1;
               textureVersion = vtf_version env (mat_target m1);
               vmt = core_make_vmt env m1;
               isolatedName = rsplit_last (name b);
               vmtPath = path_join dir (isolatedName @ ''.vmt'')
           in if writable env vmtPath then
                (case save_textures env dir isolatedName textureVersion textures
                        (d @ [(vmtPath, Descriptor vmt)]) of
                   (d1, r) \<Rightarrow> ((m1, d1), r))
              else ((m1, d), Inl (IOError vmtPath))))"

section \<open>The main window\<close>

record app_config =
  reloadOnExport :: bool
  hijackTarget :: "string option"

text \<open>
  The attributes of \<^verbatim>\<open>MainWindow\<close> that its slots read and write. The
  \<^verbatim>\<open>QFileSystemWatcher\<close> is the list of the paths it watches (\<^verbatim>\<open>files()\<close>), the
  one-shot timer \<^verbatim>\<open>watcherCooldown\<close> is whether it is running. The message boxes shown,
  the processes started and the disk are part of the state, so that a slot that does nothing
  leaves them as they were.
\<close>

record 'q main_window =
  target :: "string option"
  exporting :: bool
  watching :: bool
  watcherCooldown :: bool
  watcher :: "string list"
  config :: app_config
  backend :: core_backend
  progressBar :: nat
  exportButton :: bool
  watchAction :: string
  icons :: "ImageRole \<Rightarrow> 'q option"
  messages :: "(string \<times> error) list"
  processes :: "string list list"
  files :: disk

text \<open>
  Modelled from the spec: the file system change source ("subscribe to a set of paths ...
  add/remove paths dynamically"), which is Qt's and not the repository's: adding paths keeps
  what is watched and adds the new ones once, removing paths drops them.
\<close>

definition addPaths :: "string list \<Rightarrow> string list \<Rightarrow> string list" where
  "addPaths ps fs = fs @ filter (\<lambda>p. p \<notin> set fs) (remdups ps)"

definition removePaths :: "string list \<Rightarrow> string list \<Rightarrow> string list" where
  "removePaths ps fs = filter (\<lambda>f. f \<notin> set ps) fs"

text \<open>\<^verbatim>\<open>[x for x in xs if x != None]\<close>\<close>

fun not_none :: "'a option list \<Rightarrow> 'a list" where
  "not_none [] = []"
| "not_none (None # xs) = not_none xs"
| "not_none (Some x # xs) = x # not_none xs"

definition channel_paths :: "core_backend \<Rightarrow> string list" where
  "channel_paths b =
     not_none [albedoPath b, roughnessPath b, metallicPath b, emitPath b, aoPath b,
               normalPath b, heightPath b]"

definition start_watch :: "'q main_window \<Rightarrow> 'q main_window" where
  "start_watch w =
     w \<lparr> watchAction := ''Stop Watching'',
         watcher := addPaths (channel_paths (backend w)) (watcher w) \<rparr>"

definition stop_watch :: "'q main_window \<Rightarrow> 'q main_window" where
  "stop_watch w =
     w \<lparr> watchAction := ''Watch'', watcher := removePaths (watcher w) (watcher w) \<rparr>"

definition reset_watch :: "'q main_window \<Rightarrow> 'q main_window" where
  "reset_watch w = (if \<not> watching w then w else start_watch (stop_watch w))"

text \<open>\<^verbatim>\<open>str(path)\<close> of a \<^verbatim>\<open>Path\<close>.\<close>

fun join_slash :: "string list \<Rightarrow> string" where
  "join_slash [] = []"
| "join_slash [x] = x"
| "join_slash (x # y # ys) = x @ ''/'' @ join_slash (y # ys)"

definition str_path :: "pure_path \<Rightarrow> string" where
  "str_path p = (if root p = [] \<and> comps p = [] then ''.'' else root p @ join_slash (comps p))"

text \<open>
  The slot \<^verbatim>\<open>MainWindow.picked\<close>. An exception of \<^verbatim>\<open>pick\<close> leaves the slot before
  \<^verbatim>\<open>reset_watch\<close>; \<^verbatim>\<open>set_icon\<close> is the tile's callback, which shows the image.
\<close>

definition picked ::
  "'q io \<Rightarrow> ImageRole \<Rightarrow> pure_path option \<Rightarrow> 'q main_window \<Rightarrow> 'q main_window \<times> (error + unit)" where
  "picked env kind p w =
     (case pick env (case p of None \<Rightarrow> None | Some q \<Rightarrow> Some (str_path q)) kind (backend w) of
        (b, Inl e) \<Rightarrow> (w \<lparr> backend := b \<rparr>, Inl e)
      | (b, Inr img) \<Rightarrow>
          (let w1 = reset_watch (w \<lparr> backend := b \<rparr>)
           in (w1 \<lparr> icons := (icons w1) (kind := img) \<rparr>, Inr ())))"

text \<open>
  The slots run on the one thread of the Qt event loop. Three calls of \<^verbatim>\<open>MainWindow\<close>
  hand control back to that loop before they return: \<^verbatim>\<open>QApplication.processEvents()\<close>, the
  modal save dialog of \<^verbatim>\<open>pick_target\<close> and \<^verbatim>\<open>message.exec()\<close>. What the slots that the
  loop calls meanwhile do to the window is the argument \<open>nested\<close>; the identity stands for
  a loop with nothing to deliver.
\<close>

definition pick_target ::
  "'q io \<Rightarrow> ('q main_window \<Rightarrow> 'q main_window) \<Rightarrow> 'q main_window \<Rightarrow> 'q main_window" where
  "pick_target env nested w =
     (let w1 = nested w;
          targetPath = getSaveFileName env
      in if length targetPath \<noteq> 0 then w1 \<lparr> target := Some targetPath \<rparr> else w1)"

text \<open>The body of the \<^verbatim>\<open>try\<close> block of \<^verbatim>\<open>MainWindow.export\<close>.\<close>

definition export_try ::
  "'q io \<Rightarrow> ('q main_window \<Rightarrow> 'q main_window) \<Rightarrow> 'q main_window
   \<Rightarrow> 'q main_window \<times> (error + unit)" where
  "export_try env nested w0 =
     (case make_material env (reloadOnExport (config w0)) (backend w0) of
        (b, Inl e) \<Rightarrow> (w0 \<lparr> backend := b \<rparr>, Inl e)
      | (b, Inr m) \<Rightarrow>
          (let w1 = w0 \<lparr> backend := b, progressBar := 50 \<rparr>;
               w2 = (if target w1 = None then pick_target env nested w1 else w1)
           in case target w2 of
                None \<Rightarrow> (w2, Inl InterruptedError)
              | Some targetPath \<Rightarrow>
                  (let w3 = w2 \<lparr> backend := pick_vmt targetPath (backend w2) \<rparr>
                   in case export env (backend w3) m (files w3) of
                        ((m1, d), Inl e) \<Rightarrow> (w3 \<lparr> files := d \<rparr>, Inl e)
                      | ((m1, d), Inr u) \<Rightarrow>
                          (let w4 = w3 \<lparr> files := d, progressBar := 100 \<rparr>
                           in case hijackTarget (config w4) of
                                None \<Rightarrow> (w4, Inr ())
                              | Some h \<Rightarrow>
                                  (if h = [] then (w4, Inr ())
                                   else
                                     (let cmd = [h, ''-hijack'',
                                                 ''+mat_reloadmaterial '' @ name (backend w4)]
                                      in if popen env cmd then
                                           (w4 \<lparr> processes := processes w4 @ [cmd] \<rparr>, Inr ())
                                         else (w4, Inl (OSError h))))))))"

text \<open>
  The slot \<^verbatim>\<open>MainWindow.export\<close>: the guard, the flag and \<^verbatim>\<open>processEvents()\<close>, the
  \<^verbatim>\<open>try\<close> block, the handler of \<^verbatim>\<open>except Exception\<close> with its message box, and the
  \<^verbatim>\<open>finally\<close> block.
\<close>

definition window_export ::
  "'q io \<Rightarrow> ('q main_window \<Rightarrow> 'q main_window) \<Rightarrow> 'q main_window \<Rightarrow> 'q main_window" where
  "window_export env nested w =
     (if exporting w then w
      else
        (let w0 = nested (w \<lparr> exporting := True, exportButton := False, progressBar := 0 \<rparr>);
             w1 = (case export_try env nested w0 of
                     (w', Inr u) \<Rightarrow> w'
                   | (w', Inl e) \<Rightarrow>
                       (let w'' = w' \<lparr> progressBar := 0 \<rparr>
                        in if e = InterruptedError then w''
                           else nested
                                  (w'' \<lparr> messages := messages w'' @ [(''Failed to export!'', e)] \<rparr>)))
         in w1 \<lparr> exportButton := True, exporting := False \<rparr>))"

definition export_as ::
  "'q io \<Rightarrow> ('q main_window \<Rightarrow> 'q main_window) \<Rightarrow> 'q main_window \<Rightarrow> 'q main_window" where
  "export_as env nested w =
     (if exporting w then w else window_export env nested (w \<lparr> target := None \<rparr>))"

text \<open>
  The slot \<^verbatim>\<open>on_file_changed\<close> asserts that the window is watching and starts the one-shot
  timer; the timer's \<^verbatim>\<open>timeout\<close>, after which the timer is idle, is connected to
  \<^verbatim>\<open>export\<close>.
\<close>

definition on_file_changed :: "string \<Rightarrow> 'q main_window \<Rightarrow> error + 'q main_window" where
  "on_file_changed file w =
     (if watching w then Inr (w \<lparr> watcherCooldown := True \<rparr>)
      else Inl (AssertionError ''SOMETHING HAS GONE VERY WRONG HERE!!''))"

definition timeout ::
  "'q io \<Rightarrow> ('q main_window \<Rightarrow> 'q main_window) \<Rightarrow> 'q main_window \<Rightarrow> 'q main_window" where
  "timeout env nested w = window_export env nested (w \<lparr> watcherCooldown := False \<rparr>)"

text \<open>
  The window as \<^verbatim>\<open>MainWindow.__init__\<close> leaves it, for a configuration and the defaults of
  the backend.
\<close>

definition MainWindow :: "app_config \<Rightarrow> GameTarget \<Rightarrow> MaterialMode \<Rightarrow> 'q main_window" where
  "MainWindow cfg g m =
     \<lparr> target = None, exporting = False, watching = False, watcherCooldown = False,
       watcher = [], config = cfg, backend = CoreBackend g m, progressBar = 0,
       exportButton = True, watchAction = ''Watch'', icons = (\<lambda>role. None),
       messages = [], processes = [], files = [] \<rparr>"

text \<open>
  The slot \<^verbatim>\<open>MainWindow.watch\<close>: without a target the save dialog is asked first, and a
  dismissed dialog leaves the slot; then the flag is flipped and the watcher follows it.
\<close>

definition watch ::
  "'q io \<Rightarrow> ('q main_window \<Rightarrow> 'q main_window) \<Rightarrow> 'q main_window \<Rightarrow> 'q main_window" where
  "watch env nested w =
     (let w1 = (if \<not> watching w \<and> target w = None then pick_target env nested w else w)
      in if \<not> watching w \<and> target w = None \<and> (target w1 = None \<or> target w1 = Some [])
         then w1
         else (let w2 = w1 \<lparr> watching := \<not> watching w1 \<rparr>
               in if watching w2 then start_watch w2 else stop_watch w2))"

section \<open>The channel set that make_material reads\<close>

text \<open>
  \<^verbatim>\<open>getImage\<close> gives, for a role, the cached image, or with \<^verbatim>\<open>noCache\<close> the image
  decoded again from the stored path. \<open>fetch\<close> is that value (or the decoder's exception)
  and \<open>recache\<close> the backend the call leaves behind; \<open>assemble\<close> is the outcome of
  \<^verbatim>\<open>make_material\<close> written on the seven values fetched from the backend it starts with.
\<close>

definition fetch :: "'q io \<Rightarrow> bool \<Rightarrow> core_backend \<Rightarrow> ImageRole \<Rightarrow> error + image option" where
  "fetch env noCache b role =
     (if noCache then
        (case get_path role b of
           None \<Rightarrow> Inr None
         | Some p \<Rightarrow> (case decode env p of None \<Rightarrow> Inl (DecodeError p) | Some r \<Rightarrow> Inr (Some (snd r))))
      else Inr (get_image role b))"

definition recache :: "'q io \<Rightarrow> bool \<Rightarrow> ImageRole \<Rightarrow> core_backend \<Rightarrow> core_backend" where
  "recache env noCache role b =
     (if noCache then
        (case get_path role b of
           None \<Rightarrow> b
         | Some p \<Rightarrow> (case decode env p of None \<Rightarrow> b | Some r \<Rightarrow> set_image role (Some (snd r)) b))
      else b)"

definition assemble :: "'q io \<Rightarrow> bool \<Rightarrow> core_backend \<Rightarrow> error + material" where
  "assemble env nc b =
     (case fetch env nc b Albedo of Inl e \<Rightarrow> Inl e
      | Inr None \<Rightarrow> Inl (AssertionError ''A basetexture is required to convert the material!'')
      | Inr (Some a) \<Rightarrow>
     (case fetch env nc b Roughness of Inl e \<Rightarrow> Inl e
      | Inr None \<Rightarrow> Inl (AssertionError ''A roughness map is required to convert the material!'')
      | Inr (Some r) \<Rightarrow>
     (case fetch env nc b Metallic of Inl e \<Rightarrow> Inl e | Inr me \<Rightarrow>
     (case fetch env nc b Emit of Inl e \<Rightarrow> Inl e | Inr em \<Rightarrow>
     (case fetch env nc b AO of Inl e \<Rightarrow> Inl e | Inr oc \<Rightarrow>
     (case fetch env nc b Normal of Inl e \<Rightarrow> Inl e | Inr n \<Rightarrow>
     (case fetch env nc b Height of Inl e \<Rightarrow> Inl e | Inr h \<Rightarrow>
        Inr (construct_material b a r me em oc n h))))))))"

section \<open>An environment for the examples\<close>

text \<open>
  Three picture files decode, to square bitmaps of 2, 4 and 8 pixels; every other path fails
  to decode. Two textures are exported, every path can be written, the save dialog answers
  \<^verbatim>\<open>/a/materials/b/c.vmt\<close>.
\<close>

definition bitmap :: "nat \<Rightarrow> image" where
  "bitmap n = \<lparr> size_px = (n, n), channels = 4, pixels = Bitmap n \<rparr>"

definition demo_io :: "nat io" where
  "demo_io =
     \<lparr> load = (\<lambda>p. None),
       load_qimage = (\<lambda>p. if p = ''a.png'' then Some 2 else if p = ''r.png'' then Some 4
                          else if p = ''e.png'' then Some 8 else None),
       image_to_qimage = (\<lambda>i. fst (size_px i)),
       qimage_to_image = bitmap,
       core_export = (\<lambda>m. [\<lparr> tex_name = ''_albedo'', tex_image = mat_albedo m \<rparr>,
                             \<lparr> tex_name = ''_bump'', tex_image = mat_normal m \<rparr>]),
       core_make_vmt = (\<lambda>m. ''$basetexture '' @ mat_name m @ ''_albedo''),
       vtf_version = (\<lambda>g. case g of V2007 \<Rightarrow> 4 | _ \<Rightarrow> 5),
       writable = (\<lambda>p. True),
       getSaveFileName = ''/a/materials/b/c.vmt'',
       popen = (\<lambda>cmd. True) \<rparr>"

definition demo_backend :: core_backend where
  "demo_backend =
     (CoreBackend V2011 PBRModel)
       \<lparr> albedo := Some (bitmap 2), roughness := Some (bitmap 4), emit := Some (bitmap 8) \<rparr>"

definition demo_material :: material where
  "demo_material =
     construct_material demo_backend (bitmap 2) (bitmap 4) None (Some (bitmap 8)) None None None"

definition demo_config :: app_config where
  "demo_config = \<lparr> reloadOnExport = False, hijackTarget = None \<rparr>"

definition demo_window :: "nat main_window" where
  "demo_window = watch demo_io (\<lambda>w. w) (MainWindow demo_config V2011 PBRModel)"

definition demo_target :: string where
  "demo_target = ''/a/materials/b/c.vmt''"

section \<open>Properties of the name derivation\<close>

lemma join_slash_snoc: "join_slash (xs @ [f]) = concat (map (\<lambda>c. c @ ''/'') xs) @ f"
  by (induction xs rule: join_slash.induct) auto

lemma name_loop_found:
  "''materials'' \<notin> set between \<Longrightarrow>
   name_loop (rev between @ ''materials'' # rest) acc = (concat (map (\<lambda>c. c @ ''/'') between) @ acc, True)"
  by (induction between arbitrary: acc rule: rev_induct) auto

lemma name_loop_none:
  "''materials'' \<notin> set xs \<Longrightarrow> snd (name_loop xs acc) = False"
  by (induction xs arbitrary: acc) auto

lemma removesuffix_cases: "removesuffix s suf = s \<or> s = removesuffix s suf @ suf"
proof (cases "suf \<noteq> [] \<and> endswith s suf")
  case True
  then have "drop (length s - length suf) s = suf"
    by (simp add: endswith_def)
  then have "s = take (length s - length suf) s @ suf"
    using append_take_drop_id [of "length s - length suf" s] by simp
  with True show ?thesis
    by (simp add: removesuffix_def)
next
  case False
  then show ?thesis
    by (auto simp add: removesuffix_def)
qed

lemma removesuffix_strip:
  assumes "suf \<noteq> []" and "endswith s suf"
  shows "s = removesuffix s suf @ suf"
proof -
  from assms have "drop (length s - length suf) s = suf"
    by (simp add: endswith_def)
  then have "s = take (length s - length suf) s @ suf"
    using append_take_drop_id [of "length s - length suf" s] by simp
  with assms show ?thesis
    by (simp add: removesuffix_def)
qed

lemma removesuffix_id: "\<not> endswith s suf \<Longrightarrow> removesuffix s suf = s"
  by (simp add: removesuffix_def)

lemma name_loop_fst: "\<exists>pre. fst (name_loop xs acc) = pre @ acc"
proof (induction xs arbitrary: acc)
  case Nil
  show ?case by simp
next
  case (Cons x xs)
  show ?case
  proof (cases "x = ''materials''")
    case True
    then show ?thesis by simp
  next
    case False
    from Cons [of "x @ ''/'' @ acc"]
    obtain pre where "fst (name_loop xs (x @ ''/'' @ acc)) = pre @ x @ ''/'' @ acc"
      by blast
    then have "fst (name_loop (x # xs) acc) = (pre @ x @ ''/'') @ acc"
      using False by simp
    then show ?thesis by blast
  qed
qed

lemma parse1: "Path ''/a/materials/b/c.vmt'' = \<lparr> root = ''/'', comps = [''a'', ''materials'', ''b'', ''c.vmt''] \<rparr>"
  by (simp add: Path_def splitroot_def)

lemma parse2: "Path ''/a/b/c.vmt'' = \<lparr> root = ''/'', comps = [''a'', ''b'', ''c.vmt''] \<rparr>"
  by (simp add: Path_def splitroot_def)

lemma parse3: "Path ''/a/b/c.txt'' = \<lparr> root = ''/'', comps = [''a'', ''b'', ''c.txt''] \<rparr>"
  by (simp add: Path_def splitroot_def)

lemma parse4:
  "Path ''/a/materials/b/c.txt'' = \<lparr> root = ''/'', comps = [''a'', ''materials'', ''b'', ''c.txt''] \<rparr>"
  by (simp add: Path_def splitroot_def)

text \<open>
  Claim C2, as stated, asks for the file name with its extension stripped whatever the
  extension is. \<^verbatim>\<open>pick_vmt\<close> removes the suffix \<^verbatim>\<open>.vmt\<close> and no other: for the
  output file \<^verbatim>\<open>/a/b/c.txt\<close> the material name is \<^verbatim>\<open>c.txt\<close>, not \<^verbatim>\<open>c\<close>.
\<close>

theorem pick_vmt_name_counterexample:
  "name (pick_vmt ''/a/b/c.txt'' (CoreBackend V2011 PBRModel)) = ''c.txt''
   \<and> name (pick_vmt ''/a/b/c.txt'' (CoreBackend V2011 PBRModel)) \<noteq> ''c''"
  by (simp add: pick_vmt_def vmt_name_def parse3 parts_def path_name_def removesuffix_def
      endswith_def)

text \<open>
  Claim C2, amended: the ancestors of the output file are \<^verbatim>\<open>path.parts[:-1]\<close>, the stem
  is the file name with a trailing \<^verbatim>\<open>.vmt\<close> removed. If an ancestor is exactly
  \<^verbatim>\<open>materials\<close>, the material name is the components strictly between the nearest such
  ancestor and the file, followed by the stem, joined with \<^verbatim>\<open>/\<close> in their order; if
  none is, the material name is the stem. The output directory is the parent of the file.
\<close>

theorem pick_vmt_name:
  assumes "butlast (parts (Path pathStr)) = anc"
    and "removesuffix (path_name (Path pathStr)) ''.vmt'' = stem"
  shows "(\<forall>pre between.
            anc = pre @ ''materials'' # between \<and> ''materials'' \<notin> set between \<longrightarrow>
            name (pick_vmt pathStr b) = join_slash (between @ [stem]))
       \<and> (''materials'' \<notin> set anc \<longrightarrow> name (pick_vmt pathStr b) = stem)
       \<and> path (pick_vmt pathStr b) = Some (parent (Path pathStr))"
proof (intro conjI allI impI)
  fix pre between
  assume h: "anc = pre @ ''materials'' # between \<and> ''materials'' \<notin> set between"
  then have "rev anc = rev between @ ''materials'' # rev pre"
    by simp
  with h have "name_loop (rev anc) [] = (concat (map (\<lambda>c. c @ ''/'') between), True)"
    using name_loop_found [of between "rev pre" "[]"] by simp
  with assms show "name (pick_vmt pathStr b) = join_slash (between @ [stem])"
    by (simp add: pick_vmt_def vmt_name_def join_slash_snoc)
next
  assume "''materials'' \<notin> set anc"
  then have "snd (name_loop (rev anc) []) = False"
    using name_loop_none [of "rev anc" "[]"] by simp
  then obtain np where "name_loop (rev anc) [] = (np, False)"
    by (cases "name_loop (rev anc) []") auto
  with assms show "name (pick_vmt pathStr b) = stem"
    by (simp add: pick_vmt_def vmt_name_def)
next
  show "path (pick_vmt pathStr b) = Some (parent (Path pathStr))"
    by (simp add: pick_vmt_def)
qed


theorem pick_vmt_name_witness:
  "name (pick_vmt ''/a/materials/b/c.vmt'' (CoreBackend V2011 PBRModel)) = ''b/c''
   \<and> name (pick_vmt ''/a/b/c.vmt'' (CoreBackend V2011 PBRModel)) = ''c''"
proof
  have a: "butlast (parts (Path ''/a/materials/b/c.vmt'')) = [''/'', ''a'', ''materials'', ''b'']"
    by (simp add: parse1 parts_def)
  have s: "removesuffix (path_name (Path ''/a/materials/b/c.vmt'')) ''.vmt'' = ''c''"
    by (simp add: parse1 path_name_def removesuffix_def endswith_def)
  from pick_vmt_name [OF a s, of "CoreBackend V2011 PBRModel"]
  have "[''/'', ''a'', ''materials'', ''b''] = [''/'', ''a''] @ ''materials'' # [''b'']
          \<and> ''materials'' \<notin> set [''b'']
        \<longrightarrow> name (pick_vmt ''/a/materials/b/c.vmt'' (CoreBackend V2011 PBRModel)) = join_slash ([''b''] @ [''c''])"
    by (elim conjE allE)
  then show "name (pick_vmt ''/a/materials/b/c.vmt'' (CoreBackend V2011 PBRModel)) = ''b/c''"
    by simp
next
  have a: "butlast (parts (Path ''/a/b/c.vmt'')) = [''/'', ''a'', ''b'']"
    by (simp add: parse2 parts_def)
  have s: "removesuffix (path_name (Path ''/a/b/c.vmt'')) ''.vmt'' = ''c''"
    by (simp add: parse2 path_name_def removesuffix_def endswith_def)
  from pick_vmt_name [OF a s, of "CoreBackend V2011 PBRModel"]
  have "''materials'' \<notin> set [''/'', ''a'', ''b''] \<longrightarrow> name (pick_vmt ''/a/b/c.vmt'' (CoreBackend V2011 PBRModel)) = ''c''"
    by (elim conjE)
  then show "name (pick_vmt ''/a/b/c.vmt'' (CoreBackend V2011 PBRModel)) = ''c''"
    by simp
qed

text \<open>
  Claim C10: the material name ends with the stem of the file name, and that stem is the
  file name itself unless the file name ends in \<^verbatim>\<open>.vmt\<close>, in which case it is the file
  name without these four characters. A file name that does not end in \<^verbatim>\<open>.vmt\<close> is
  in the material name in full, extension included.
\<close>

theorem pick_vmt_strips_only_vmt:
  assumes "path_name (Path pathStr) = fname"
  shows "\<exists>prefix stem.
           name (pick_vmt pathStr b) = prefix @ stem
         \<and> (stem = fname \<or> fname = stem @ ''.vmt'')
         \<and> (\<not> endswith fname ''.vmt'' \<longrightarrow> stem = fname)
         \<and> (endswith fname ''.vmt'' \<longrightarrow> fname = stem @ ''.vmt'')"
proof -
  define stem where "stem = removesuffix fname ''.vmt''"
  obtain np u where l: "name_loop (rev (butlast (parts (Path pathStr)))) [] = (np, u)"
    by (cases "name_loop (rev (butlast (parts (Path pathStr)))) []") auto
  with assms have n: "name (pick_vmt pathStr b) = (if u then np @ stem else stem)"
    by (simp add: pick_vmt_def vmt_name_def stem_def)
  have 1: "\<exists>prefix. name (pick_vmt pathStr b) = prefix @ stem"
  proof (cases u)
    case True
    with n show ?thesis by simp
  next
    case False
    with n have "name (pick_vmt pathStr b) = [] @ stem" by simp
    then show ?thesis by blast
  qed
  have 2: "stem = fname \<or> fname = stem @ ''.vmt''"
    using removesuffix_cases [of fname "''.vmt''"] by (simp add: stem_def)
  have 3: "\<not> endswith fname ''.vmt'' \<longrightarrow> stem = fname"
    by (simp add: stem_def removesuffix_id)
  have 4: "endswith fname ''.vmt'' \<longrightarrow> fname = stem @ ''.vmt''"
  proof
    assume "endswith fname ''.vmt''"
    then show "fname = stem @ ''.vmt''"
      using removesuffix_strip [of "''.vmt''" fname] by (simp add: stem_def)
  qed
  from 1 2 3 4 show ?thesis by blast
qed

theorem pick_vmt_strips_only_vmt_witness:
  "\<not> endswith ''c.txt'' ''.vmt''
   \<and> (\<exists>prefix. name (pick_vmt ''/a/materials/b/c.txt'' (CoreBackend V2011 PBRModel))
                  = prefix @ ''c.txt'')"
proof -
  have f: "path_name (Path ''/a/materials/b/c.txt'') = ''c.txt''"
    by (simp add: parse4 path_name_def)
  have e: "\<not> endswith ''c.txt'' ''.vmt''"
    by (simp add: endswith_def)
  from pick_vmt_strips_only_vmt [OF f, of "CoreBackend V2011 PBRModel"] e
  have "\<exists>prefix. name (pick_vmt ''/a/materials/b/c.txt'' (CoreBackend V2011 PBRModel))
                   = prefix @ ''c.txt''"
    by blast
  with e show ?thesis by blast
qed

section \<open>Properties of the channel store\<close>

lemma get_set_path [simp]:
  "get_image r (set_path r' v b) = get_image r b"
  "get_path r (set_path r v b) = v"
  "r \<noteq> r' \<Longrightarrow> get_path r (set_path r' v b) = get_path r b"
  by (cases r; cases r'; simp)+

lemma pick_fails:
  assumes "decode env p = None" and "p \<noteq> []"
  shows "pick env (Some p) role b = (set_path role (Some p) b, Inl (DecodeError p))"
  using assms by (simp add: pick_def convert_def bind_raise_def)

lemma demo_decode_bad: "decode demo_io ''bad.png'' = None"
  by (simp add: decode_def demo_io_def endswith_def)

text \<open>
  Claim C3, as stated, asks that a pick whose decoding fails leaves the entry of the role as
  it was, path included. \<^verbatim>\<open>pick\<close> assigns the path before it decodes: after the failed
  pick of \<^verbatim>\<open>bad.png\<close> for Albedo on a fresh backend the stored Albedo path is
  \<^verbatim>\<open>bad.png\<close>, and it was absent before.
\<close>

theorem pick_decode_failure_counterexample:
  "snd (pick demo_io (Some ''bad.png'') Albedo (CoreBackend V2011 PBRModel))
     = Inl (DecodeError ''bad.png'')
   \<and> get_path Albedo (fst (pick demo_io (Some ''bad.png'') Albedo (CoreBackend V2011 PBRModel)))
     = Some ''bad.png''
   \<and> get_path Albedo (CoreBackend V2011 PBRModel) = None"
  by (simp add: pick_fails demo_decode_bad CoreBackend_def)

text \<open>
  Claim C3, amended: for every role and every non-empty path whose decoding fails, the pick
  raises the decode error; the backend it leaves is the one before the call with the path of
  the role set to the new path. So the cached image of every role, that of the picked role
  included, and the path of every other role are what they were; the stored path of the
  picked role is the new one.
\<close>

theorem pick_decode_failure:
  assumes "decode env p = None" and "p \<noteq> []"
  shows "snd (pick env (Some p) role b) = Inl (DecodeError p)
       \<and> fst (pick env (Some p) role b) = set_path role (Some p) b
       \<and> get_path role (fst (pick env (Some p) role b)) = Some p
       \<and> (\<forall>r. get_image r (fst (pick env (Some p) role b)) = get_image r b)
       \<and> (\<forall>r. r \<noteq> role \<longrightarrow> get_path r (fst (pick env (Some p) role b)) = get_path r b)"
  using assms by (simp add: pick_fails)

theorem pick_decode_failure_witness:
  "decode demo_io ''bad.png'' = None \<and> ''bad.png'' \<noteq> []
   \<and> snd (pick demo_io (Some ''bad.png'') Roughness demo_backend) = Inl (DecodeError ''bad.png'')
   \<and> get_image Roughness (fst (pick demo_io (Some ''bad.png'') Roughness demo_backend))
       = Some (bitmap 4)
   \<and> get_path Roughness (fst (pick demo_io (Some ''bad.png'') Roughness demo_backend))
       = Some ''bad.png''"
proof -
  have n: "''bad.png'' \<noteq> []" by simp
  from pick_decode_failure [OF demo_decode_bad n, of Roughness demo_backend]
  have "snd (pick demo_io (Some ''bad.png'') Roughness demo_backend) = Inl (DecodeError ''bad.png'')"
    and "get_path Roughness (fst (pick demo_io (Some ''bad.png'') Roughness demo_backend))
           = Some ''bad.png''"
    and "get_image Roughness (fst (pick demo_io (Some ''bad.png'') Roughness demo_backend))
           = get_image Roughness demo_backend"
    by blast+
  then show ?thesis
    using demo_decode_bad by (simp add: demo_backend_def CoreBackend_def)
qed

section \<open>Properties of the assembled material\<close>

lemma getImage_eq: "getImage env nc role b = (recache env nc role b, fetch env nc b role)"
  by (simp add: getImage_def fetch_def recache_def convert_def bind_raise_def
      split: option.splits prod.splits)

lemma get_path_set_image [simp]: "get_path r (set_image r' v b) = get_path r b"
  by (cases r; cases r') simp_all

lemma fetch_recache [simp]: "fetch env nc (recache env nc r' b) role = fetch env nc b role"
  by (simp add: fetch_def recache_def split: option.splits)

lemma name_set_image [simp]:
  "name (set_image r v b) = name b" "mode (set_image r v b) = mode b"
  "game (set_image r v b) = game b" "path (set_image r v b) = path b"
  by (cases r; simp)+

lemma recache_fields [simp]:
  "name (recache env nc r b) = name b" "mode (recache env nc r b) = mode b"
  "game (recache env nc r b) = game b" "path (recache env nc r b) = path b"
  by (simp_all add: recache_def split: option.splits)

lemma construct_material_recache [simp]:
  "construct_material (recache env nc role b) a r me em oc n h = construct_material b a r me em oc n h"
  by (simp add: construct_material_def)

lemma bind_getImage:
  "snd (bind_raise (getImage env nc role b) f) =
     (case fetch env nc b role of Inl e \<Rightarrow> Inl e | Inr v \<Rightarrow> snd (f (recache env nc role b) v))"
  by (simp add: getImage_eq bind_raise_def split: sum.splits)

lemma make_material_result: "snd (make_material env nc b) = assemble env nc b"
  unfolding make_material_def assemble_def
  by (simp add: bind_getImage option.case_distrib [of snd]
      cong: option.case_cong sum.case_cong)

lemma make_material_success:
  assumes "fetch env nc b Albedo = Inr (Some a)"
    and "fetch env nc b Roughness = Inr (Some r)"
    and "fetch env nc b Metallic = Inr me"
    and "fetch env nc b Emit = Inr em"
    and "fetch env nc b AO = Inr oc"
    and "fetch env nc b Normal = Inr n"
    and "fetch env nc b Height = Inr h"
  shows "snd (make_material env nc b) = Inr (construct_material b a r me em oc n h)"
  using assms by (simp add: make_material_result assemble_def)

lemma demo_fetch:
  "fetch demo_io False demo_backend Albedo = Inr (Some (bitmap 2))"
  "fetch demo_io False demo_backend Roughness = Inr (Some (bitmap 4))"
  "fetch demo_io False demo_backend Metallic = Inr None"
  "fetch demo_io False demo_backend Emit = Inr (Some (bitmap 8))"
  "fetch demo_io False demo_backend AO = Inr None"
  "fetch demo_io False demo_backend Normal = Inr None"
  "fetch demo_io False demo_backend Height = Inr None"
  by (simp_all add: fetch_def demo_backend_def CoreBackend_def)

lemma demo_make_material: "snd (make_material demo_io False demo_backend) = Inr demo_material"
  unfolding demo_material_def by (rule make_material_success) (rule demo_fetch)+

text \<open>
  Claim C1, as stated, asks that every channel of the material has the reference size. With
  an Albedo of 2 by 2, a Roughness of 4 by 4, an Emit of 8 by 8 and no Normal, the material
  has size 4 by 4, its Albedo channel is still 2 by 2 and its Emit channel is 2 by 2.
\<close>

theorem make_material_sizes_counterexample:
  "\<not> isl (snd (make_material demo_io False demo_backend))
   \<and> mat_size (projr (snd (make_material demo_io False demo_backend))) = (4, 4)
   \<and> size_px (mat_albedo (projr (snd (make_material demo_io False demo_backend)))) = (2, 2)
   \<and> map_option size_px (mat_emit (projr (snd (make_material demo_io False demo_backend))))
       = Some (2, 2)"
  by (simp add: demo_make_material demo_material_def construct_material_def texops_normalize_def blank_def bitmap_def)

text \<open>
  Claim C1, amended: when Albedo and Roughness are present and every channel is read without
  a decoding error, the material is assembled; its size is the reference size (the size of
  Normal if present, else of Roughness); Roughness, Metallic, Normal and Height have the
  reference size; Albedo keeps its own size; Emit and AO, when present, have the size of
  Albedo. Albedo and Normal have three components, Roughness, Metallic, Emit, AO and Height
  one.
\<close>

theorem make_material_sizes:
  assumes "fetch env nc b Albedo = Inr (Some a)"
    and "fetch env nc b Roughness = Inr (Some r)"
    and "fetch env nc b Metallic = Inr me"
    and "fetch env nc b Emit = Inr em"
    and "fetch env nc b AO = Inr oc"
    and "fetch env nc b Normal = Inr n"
    and "fetch env nc b Height = Inr h"
    and "ref = (case n of None \<Rightarrow> size_px r | Some x \<Rightarrow> size_px x)"
  shows "\<exists>m. snd (make_material env nc b) = Inr m
           \<and> mat_size m = ref
           \<and> size_px (mat_roughness m) = ref \<and> channels (mat_roughness m) = 1
           \<and> size_px (mat_metallic m) = ref \<and> channels (mat_metallic m) = 1
           \<and> size_px (mat_normal m) = ref \<and> channels (mat_normal m) = 3
           \<and> map_option size_px (mat_height m) = Some ref
           \<and> map_option channels (mat_height m) = Some 1
           \<and> size_px (mat_albedo m) = size_px a \<and> channels (mat_albedo m) = 3
           \<and> map_option size_px (mat_emit m) = map_option (\<lambda>e. size_px a) em
           \<and> map_option channels (mat_emit m) = map_option (\<lambda>e. 1) em
           \<and> map_option size_px (mat_ao m) = map_option (\<lambda>e. size_px a) oc
           \<and> map_option channels (mat_ao m) = map_option (\<lambda>e. 1) oc"
proof -
  have "snd (make_material env nc b) = Inr (construct_material b a r me em oc n h)"
    using assms(1-7) by (rule make_material_success)
  then show ?thesis
    using assms(8)
    by (cases n; cases em; cases oc)
       (simp_all add: construct_material_def texops_normalize_def blank_def)
qed

theorem make_material_sizes_witness:
  "fetch demo_io False demo_backend Albedo = Inr (Some (bitmap 2))
   \<and> fetch demo_io False demo_backend Roughness = Inr (Some (bitmap 4))
   \<and> (\<exists>m. snd (make_material demo_io False demo_backend) = Inr m
         \<and> mat_size m = (4, 4) \<and> size_px (mat_roughness m) = (4, 4)
         \<and> size_px (mat_metallic m) = (4, 4) \<and> size_px (mat_normal m) = (4, 4)
         \<and> size_px (mat_albedo m) = (2, 2)
         \<and> map_option size_px (mat_emit m) = Some (2, 2))"
proof -
  have r: "(4, 4) = (case None of None \<Rightarrow> size_px (bitmap 4) | Some x \<Rightarrow> size_px x)"
    by (simp add: bitmap_def)
  from make_material_sizes [OF demo_fetch r]
  have "\<exists>m. snd (make_material demo_io False demo_backend) = Inr m
         \<and> mat_size m = (4, 4) \<and> size_px (mat_roughness m) = (4, 4)
         \<and> size_px (mat_metallic m) = (4, 4) \<and> size_px (mat_normal m) = (4, 4)
         \<and> size_px (mat_albedo m) = size_px (bitmap 2)
         \<and> map_option size_px (mat_emit m) = map_option (\<lambda>e. size_px (bitmap 2)) (Some (bitmap 8))"
    by blast
  then show ?thesis
    by (simp add: demo_fetch bitmap_def)
qed

text \<open>
  Claim C7: when Albedo and Roughness are present and every channel is read without a
  decoding error, the material is assembled, and an absent Metallic is the flat colour 0 with
  one component at the reference size, an absent Normal the flat colour (0.5, 0.5, 1) with
  three components at the reference size, an absent Height the flat colour 0.5 with one
  component at the reference size; an absent Emit or AO stays absent.
\<close>

theorem make_material_defaults:
  assumes "fetch env nc b Albedo = Inr (Some a)"
    and "fetch env nc b Roughness = Inr (Some r)"
    and "fetch env nc b Metallic = Inr me"
    and "fetch env nc b Emit = Inr em"
    and "fetch env nc b AO = Inr oc"
    and "fetch env nc b Normal = Inr n"
    and "fetch env nc b Height = Inr h"
    and "ref = (case n of None \<Rightarrow> size_px r | Some x \<Rightarrow> size_px x)"
  shows "\<exists>m. snd (make_material env nc b) = Inr m
           \<and> (me = None \<longrightarrow>
                mat_metallic m = \<lparr> size_px = ref, channels = 1, pixels = Flat [0] \<rparr>)
           \<and> (n = None \<longrightarrow>
                mat_normal m = \<lparr> size_px = ref, channels = 3, pixels = Flat [1/2, 1/2, 1] \<rparr>)
           \<and> (h = None \<longrightarrow>
                mat_height m = Some \<lparr> size_px = ref, channels = 1, pixels = Flat [1/2] \<rparr>)
           \<and> (em = None \<longrightarrow> mat_emit m = None)
           \<and> (oc = None \<longrightarrow> mat_ao m = None)"
proof -
  have "snd (make_material env nc b) = Inr (construct_material b a r me em oc n h)"
    using assms(1-7) by (rule make_material_success)
  then show ?thesis
    using assms(8)
    by (cases n) (simp_all add: construct_material_def texops_normalize_def blank_def)
qed

theorem make_material_defaults_witness:
  "fetch demo_io False demo_backend Albedo = Inr (Some (bitmap 2))
   \<and> fetch demo_io False demo_backend Roughness = Inr (Some (bitmap 4))
   \<and> fetch demo_io False demo_backend Metallic = Inr None
   \<and> (\<exists>m. snd (make_material demo_io False demo_backend) = Inr m
         \<and> mat_metallic m = \<lparr> size_px = (4, 4), channels = 1, pixels = Flat [0] \<rparr>
         \<and> mat_normal m = \<lparr> size_px = (4, 4), channels = 3, pixels = Flat [1/2, 1/2, 1] \<rparr>
         \<and> mat_height m = Some \<lparr> size_px = (4, 4), channels = 1, pixels = Flat [1/2] \<rparr>
         \<and> mat_ao m = None)"
proof -
  have r: "(4, 4) = (case None of None \<Rightarrow> size_px (bitmap 4) | Some x \<Rightarrow> size_px x)"
    by (simp add: bitmap_def)
  from make_material_defaults [OF demo_fetch r]
  have "\<exists>m. snd (make_material demo_io False demo_backend) = Inr m
         \<and> mat_metallic m = \<lparr> size_px = (4, 4), channels = 1, pixels = Flat [0] \<rparr>
         \<and> mat_normal m = \<lparr> size_px = (4, 4), channels = 3, pixels = Flat [1/2, 1/2, 1] \<rparr>
         \<and> mat_height m = Some \<lparr> size_px = (4, 4), channels = 1, pixels = Flat [1/2] \<rparr>
         \<and> mat_ao m = None"
    by blast
  then show ?thesis
    by (simp add: demo_fetch)
qed

section \<open>Properties of the export\<close>

lemma save_textures_ok:
  "save_textures env dir nm v ts d = (d', Inr u) \<Longrightarrow>
   d' = d @ map (\<lambda>t. (path_join dir (nm @ tex_name t @ ''.vtf''), VTF (tex_image t) v)) ts"
proof (induction ts arbitrary: d)
  case Nil
  then show ?case by simp
next
  case (Cons t ts)
  let ?f = "(path_join dir (nm @ tex_name t @ ''.vtf''), VTF (tex_image t) v)"
  from Cons.prems have w: "writable env (path_join dir (nm @ tex_name t @ ''.vtf''))"
    by (simp add: Let_def split: if_splits)
  with Cons.prems have "save_textures env dir nm v ts (d @ [?f]) = (d', Inr u)"
    by (simp add: Let_def)
  from Cons.IH [OF this] show ?case by simp
qed

lemma rsplit_last_no_slash: "CHR ''/'' \<notin> set (rsplit_last s)"
proof
  assume "CHR ''/'' \<in> set (rsplit_last s)"
  then have "CHR ''/'' \<in> set (takeWhile (\<lambda>c. c \<noteq> CHR ''/'') (rev s))"
    by (simp add: rsplit_last_def)
  then show False
    by (auto dest: set_takeWhileD)
qed

lemma rsplit_last_suffix:
  "\<exists>pre. s = pre @ rsplit_last s \<and> (pre = [] \<or> last pre = CHR ''/'')"
proof -
  let ?P = "\<lambda>c. c \<noteq> CHR ''/''"
  have s: "s = rev (dropWhile ?P (rev s)) @ rsplit_last s"
    by (metis rev_append rev_rev_ident takeWhile_dropWhile_id rsplit_last_def)
  have "dropWhile ?P (rev s) = [] \<or> hd (dropWhile ?P (rev s)) = CHR ''/''"
    using hd_dropWhile [of ?P "rev s"] by auto
  then have "rev (dropWhile ?P (rev s)) = [] \<or> last (rev (dropWhile ?P (rev s))) = CHR ''/''"
    by (auto simp: last_rev)
  with s show ?thesis by blast
qed

lemma split_sep_no_sep: "sep \<notin> set s \<Longrightarrow> split_sep sep s = [s]"
  by (induction s) auto

lemma splitroot_no_slash: "CHR ''/'' \<notin> set s \<Longrightarrow> splitroot s = []"
  by (auto simp: splitroot_def split: list.splits)

lemma path_join_plain:
  assumes "CHR ''/'' \<notin> set s" and "4 \<le> length s"
  shows "path_join dir s = dir \<lparr> comps := comps dir @ [s] \<rparr>"
proof -
  from assms(2) have "s \<noteq> []" and "s \<noteq> ''.''"
    by auto
  with assms(1) have "Path s = \<lparr> root = [], comps = [s] \<rparr>"
    by (simp add: Path_def split_sep_no_sep splitroot_no_slash)
  then show ?thesis
    by (simp add: path_join_def)
qed

lemma export_material:
  "fst (fst (export env b m d)) = (if path b = None then m else m \<lparr> mat_name := name b \<rparr>)"
  by (simp add: export_def Let_def split: option.splits prod.splits)

lemma demo_pick_vmt:
  "pick_vmt demo_target demo_backend =
     demo_backend \<lparr> path := Some \<lparr> root = ''/'', comps = [''a'', ''materials'', ''b''] \<rparr>,
                    name := ''b/c'' \<rparr>"
  by (simp add: pick_vmt_def demo_target_def vmt_name_def parse1 parent_def parts_def
      path_name_def removesuffix_def endswith_def)

lemma demo_material_name: "mat_name demo_material = ''ThisShouldNeverAppear''"
  by (simp add: demo_material_def construct_material_def demo_backend_def CoreBackend_def Let_def)

lemma demo_export_ok:
  "snd (export demo_io (pick_vmt demo_target demo_backend) demo_material []) = Inr ()"
  by (simp add: export_def demo_pick_vmt Let_def demo_io_def split: prod.splits)

lemma demo_window_eq:
  "demo_window =
     (MainWindow demo_config V2011 PBRModel)
       \<lparr> target := Some ''/a/materials/b/c.vmt'', watching := True,
         watchAction := ''Stop Watching'' \<rparr>"
  by (simp add: demo_window_def watch_def pick_target_def MainWindow_def demo_io_def Let_def
      start_watch_def addPaths_def channel_paths_def CoreBackend_def)

text \<open>
  Claim C8: a call of \<^verbatim>\<open>CoreBackend.export\<close> that returns has written, after what was on
  the disk, the descriptor first and then one file per texture in the order of the textures.
  The isolated name is what follows the last slash of the name (it has no slash). The
  descriptor is the file \<^verbatim>\<open><isolated name>.vmt\<close> in the output directory; the file of a
  texture is the output directory joined with \<^verbatim>\<open><isolated name><suffix>.vtf\<close>, a file in
  the output directory whenever the suffix has no slash.
\<close>

theorem export_writes_descriptor_first:
  assumes "export env b m d = ((m', d'), Inr u)"
  shows "\<exists>dir isolatedName.
           path b = Some dir \<and> isolatedName = rsplit_last (name b)
         \<and> CHR ''/'' \<notin> set isolatedName
         \<and> (\<exists>pre. name b = pre @ isolatedName \<and> (pre = [] \<or> last pre = CHR ''/''))
         \<and> d' = d
              @ (dir \<lparr> comps := comps dir @ [isolatedName @ ''.vmt''] \<rparr>,
                 Descriptor (core_make_vmt env m'))
              # map (\<lambda>t. (path_join dir (isolatedName @ tex_name t @ ''.vtf''),
                          VTF (tex_image t) (vtf_version env (mat_target m'))))
                    (core_export env m')
         \<and> (\<forall>t \<in> set (core_export env m'). CHR ''/'' \<notin> set (tex_name t) \<longrightarrow>
               path_join dir (isolatedName @ tex_name t @ ''.vtf'')
                 = dir \<lparr> comps := comps dir @ [isolatedName @ tex_name t @ ''.vtf''] \<rparr>)"
proof -
  let ?n = "rsplit_last (name b)"
  from assms obtain dir where dir: "path b = Some dir"
    by (cases "path b") (simp_all add: export_def)
  from assms dir have m': "m' = m \<lparr> mat_name := name b \<rparr>"
    using export_material [of env b m d] by simp
  have j: "path_join dir (?n @ ''.vmt'') = dir \<lparr> comps := comps dir @ [?n @ ''.vmt''] \<rparr>"
    by (rule path_join_plain) (simp_all add: rsplit_last_no_slash)
  from assms dir have w: "writable env (path_join dir (?n @ ''.vmt''))"
    by (simp add: export_def Let_def split: if_splits)
  with assms dir m' have
    "save_textures env dir ?n (vtf_version env (mat_target m')) (core_export env m')
       (d @ [(path_join dir (?n @ ''.vmt''), Descriptor (core_make_vmt env m'))]) = (d', Inr u)"
    by (simp add: export_def Let_def split: prod.splits)
  from save_textures_ok [OF this] j have d':
    "d' = d @ (dir \<lparr> comps := comps dir @ [?n @ ''.vmt''] \<rparr>, Descriptor (core_make_vmt env m'))
            # map (\<lambda>t. (path_join dir (?n @ tex_name t @ ''.vtf''),
                        VTF (tex_image t) (vtf_version env (mat_target m'))))
                  (core_export env m')"
    by simp
  have t: "\<forall>t \<in> set (core_export env m'). CHR ''/'' \<notin> set (tex_name t) \<longrightarrow>
             path_join dir (?n @ tex_name t @ ''.vtf'')
               = dir \<lparr> comps := comps dir @ [?n @ tex_name t @ ''.vtf''] \<rparr>"
    by (auto intro!: path_join_plain simp: rsplit_last_no_slash)
  from dir d' t rsplit_last_no_slash [of "name b"] rsplit_last_suffix [of "name b"]
  show ?thesis by blast
qed

theorem export_writes_descriptor_first_witness:
  "snd (export demo_io (pick_vmt demo_target demo_backend) demo_material []) = Inr ()
   \<and> map fst (snd (fst (export demo_io (pick_vmt demo_target demo_backend) demo_material [])))
       = [\<lparr> root = ''/'', comps = [''a'', ''materials'', ''b'', ''c.vmt''] \<rparr>,
          \<lparr> root = ''/'', comps = [''a'', ''materials'', ''b'', ''c_albedo.vtf''] \<rparr>,
          \<lparr> root = ''/'', comps = [''a'', ''materials'', ''b'', ''c_bump.vtf''] \<rparr>]"
proof -
  let ?b = "pick_vmt demo_target demo_backend"
  obtain m' d' where e: "export demo_io ?b demo_material [] = ((m', d'), Inr ())"
    using demo_export_ok by (cases "export demo_io ?b demo_material []") auto
  from export_writes_descriptor_first [OF e]
  obtain dir isolatedName where
    p: "path ?b = Some dir" and i: "isolatedName = rsplit_last (name ?b)"
    and d: "d' = [] @ (dir \<lparr> comps := comps dir @ [isolatedName @ ''.vmt''] \<rparr>,
                      Descriptor (core_make_vmt demo_io m'))
               # map (\<lambda>t. (path_join dir (isolatedName @ tex_name t @ ''.vtf''),
                           VTF (tex_image t) (vtf_version demo_io (mat_target m'))))
                     (core_export demo_io m')"
    by blast
  from p have dir: "dir = \<lparr> root = ''/'', comps = [''a'', ''materials'', ''b''] \<rparr>"
    by (simp add: demo_pick_vmt)
  from i have iso: "isolatedName = ''c''"
    by (simp add: demo_pick_vmt rsplit_last_def)
  from d have "map fst d' =
      [\<lparr> root = ''/'', comps = [''a'', ''materials'', ''b'', ''c.vmt''] \<rparr>,
       \<lparr> root = ''/'', comps = [''a'', ''materials'', ''b'', ''c_albedo.vtf''] \<rparr>,
       \<lparr> root = ''/'', comps = [''a'', ''materials'', ''b'', ''c_bump.vtf''] \<rparr>]"
    by (simp add: dir iso demo_io_def path_join_def Path_def splitroot_def)
  with e show ?thesis by simp
qed

text \<open>
  Claim C4, as stated, asks that no operation changes a field of a material that
  \<^verbatim>\<open>make_material\<close> returned. \<^verbatim>\<open>export\<close> assigns \<^verbatim>\<open>material.name = self.name\<close>: the
  material assembled before the output file was chosen is named
  \<^verbatim>\<open>ThisShouldNeverAppear\<close>, and after the export to \<^verbatim>\<open>/a/materials/b/c.vmt\<close> the same
  material is named \<^verbatim>\<open>b/c\<close>.
\<close>

theorem export_mutates_name_counterexample:
  "snd (make_material demo_io False demo_backend) = Inr demo_material
   \<and> mat_name demo_material = ''ThisShouldNeverAppear''
   \<and> mat_name (fst (fst (export demo_io (pick_vmt demo_target demo_backend) demo_material [])))
       = ''b/c''"
  by (simp add: demo_make_material demo_material_name export_material demo_pick_vmt)

lemma assemble_name: "assemble env nc b = Inr m \<Longrightarrow> mat_name m = name b"
  by (auto simp: assemble_def construct_material_def Let_def split: sum.splits option.splits)

lemma make_material_name:
  "make_material env nc b = (b1, Inr m) \<Longrightarrow> mat_name m = name b"
  using make_material_result [of env nc b] assemble_name [of env nc b m] by simp

lemma export_renames:
  "fst (fst (export env (pick_vmt t b) m d)) = m \<lparr> mat_name := vmt_name t \<rparr>"
  by (simp add: export_material pick_vmt_def)

lemma export_try_files:
  assumes m: "make_material env (reloadOnExport (config w)) (backend w) = (b1, Inr m1)"
  shows "files (fst (export_try env (\<lambda>s. s) w)) =
           (case (case target w of
                    Some t \<Rightarrow> Some t
                  | None \<Rightarrow> (if getSaveFileName env = [] then None
                             else Some (getSaveFileName env))) of
              None \<Rightarrow> files w
            | Some t \<Rightarrow> snd (fst (export env (pick_vmt t b1) m1 (files w))))"
proof (cases "target w")
  case (Some t)
  with m show ?thesis
    by (simp add: export_try_def Let_def split: prod.splits sum.splits option.splits)
next
  case None
  show ?thesis
  proof (cases "getSaveFileName env = []")
    case True
    with m None show ?thesis
      by (simp add: export_try_def pick_target_def Let_def)
  next
    case False
    with m None show ?thesis
      by (simp add: export_try_def pick_target_def Let_def
          split: prod.splits sum.splits option.splits)
  qed
qed

lemma window_export_files_try:
  "\<not> exporting w \<Longrightarrow>
   files (window_export env (\<lambda>s. s) w) =
     files (fst (export_try env (\<lambda>s. s)
                   (w \<lparr> exporting := True, exportButton := False, progressBar := 0 \<rparr>)))"
  by (simp add: window_export_def Let_def split: prod.splits sum.splits)

lemma window_export_files:
  assumes "\<not> exporting w"
    and "make_material env (reloadOnExport (config w)) (backend w) = (b1, Inr m1)"
  shows "files (window_export env (\<lambda>s. s) w) =
           (case (case target w of
                    Some t \<Rightarrow> Some t
                  | None \<Rightarrow> (if getSaveFileName env = [] then None
                             else Some (getSaveFileName env))) of
              None \<Rightarrow> files w
            | Some t \<Rightarrow> snd (fst (export env (pick_vmt t b1) m1 (files w))))"
  using assms
    export_try_files [of env "w \<lparr> exporting := True, exportButton := False, progressBar := 0 \<rparr>"
      b1 m1]
  by (simp add: window_export_files_try split: option.splits)

lemma export_as_files:
  assumes "\<not> exporting w"
    and "make_material env (reloadOnExport (config w)) (backend w) = (b1, Inr m1)"
  shows "files (export_as env (\<lambda>s. s) w) =
           (if getSaveFileName env = [] then files w
            else snd (fst (export env (pick_vmt (getSaveFileName env) b1) m1 (files w))))"
  using assms window_export_files [of "w \<lparr> target := None \<rparr>" env b1 m1]
  by (simp add: export_as_def)

lemma demo_make_material_backend:
  "make_material demo_io False demo_backend = (demo_backend, Inr demo_material)"
proof -
  have "fst (make_material demo_io False demo_backend) = demo_backend"
    by (simp add: make_material_def getImage_eq recache_def demo_fetch bind_raise_def)
  with demo_make_material show ?thesis
    by (cases "make_material demo_io False demo_backend") simp
qed

lemma demo_export_files:
  "map fst (snd (fst (export demo_io (pick_vmt demo_target demo_backend) demo_material [])))
     = [\<lparr> root = ''/'', comps = [''a'', ''materials'', ''b'', ''c.vmt''] \<rparr>,
        \<lparr> root = ''/'', comps = [''a'', ''materials'', ''b'', ''c_albedo.vtf''] \<rparr>,
        \<lparr> root = ''/'', comps = [''a'', ''materials'', ''b'', ''c_bump.vtf''] \<rparr>]"
  by (simp add: export_def demo_pick_vmt Let_def demo_io_def rsplit_last_def path_join_def
      Path_def splitroot_def)

text \<open>
  Claim C4, amended: the only field of a material that \<^verbatim>\<open>export\<close> changes is its name,
  which becomes the backend's name (and nothing changes when the backend has no output
  directory): the material that \<^verbatim>\<open>make_material\<close> named after the backend's name of that
  moment is renamed to the name derived from the output file. Every export cycle of the
  window, whether the target is stored, is asked for in the save dialog, or is asked for again
  by Export As, works on the material that \<^verbatim>\<open>make_material\<close> built in that same call: the
  files it writes are those of the backend's export of that material, and none when the
  dialog is dismissed. (No other slot runs meanwhile.)
\<close>

theorem export_mutates_name:
  "fst (fst (export env b m d)) = (if path b = None then m else m \<lparr> mat_name := name b \<rparr>)
   \<and> (\<not> exporting w
        \<and> make_material env (reloadOnExport (config w)) (backend w) = (b1, Inr m1) \<longrightarrow>
        mat_name m1 = name (backend w)
      \<and> (\<forall>t dd. fst (fst (export env (pick_vmt t b1) m1 dd)) = m1 \<lparr> mat_name := vmt_name t \<rparr>)
      \<and> files (window_export env (\<lambda>s. s) w) =
          (case (case target w of
                   Some t \<Rightarrow> Some t
                 | None \<Rightarrow> (if getSaveFileName env = [] then None
                            else Some (getSaveFileName env))) of
             None \<Rightarrow> files w
           | Some t \<Rightarrow> snd (fst (export env (pick_vmt t b1) m1 (files w))))
      \<and> files (export_as env (\<lambda>s. s) w) =
          (if getSaveFileName env = [] then files w
           else snd (fst (export env (pick_vmt (getSaveFileName env) b1) m1 (files w)))))"
  using export_material [of env b m d] make_material_name [of env _ "backend w" b1 m1]
    export_renames [of env _ b1 m1] window_export_files [of w env b1 m1]
    export_as_files [of w env b1 m1]
  by blast

theorem export_mutates_name_witness:
  "\<not> exporting ((MainWindow demo_config V2011 PBRModel :: nat main_window)
                   \<lparr> backend := demo_backend \<rparr>)
   \<and> target ((MainWindow demo_config V2011 PBRModel :: nat main_window)
               \<lparr> backend := demo_backend \<rparr>) = None
   \<and> make_material demo_io False demo_backend = (demo_backend, Inr demo_material)
   \<and> map fst (files (window_export demo_io (\<lambda>s. s)
                        ((MainWindow demo_config V2011 PBRModel) \<lparr> backend := demo_backend \<rparr>)))
       = [\<lparr> root = ''/'', comps = [''a'', ''materials'', ''b'', ''c.vmt''] \<rparr>,
          \<lparr> root = ''/'', comps = [''a'', ''materials'', ''b'', ''c_albedo.vtf''] \<rparr>,
          \<lparr> root = ''/'', comps = [''a'', ''materials'', ''b'', ''c_bump.vtf''] \<rparr>]"
proof -
  let ?w = "(MainWindow demo_config V2011 PBRModel :: nat main_window) \<lparr> backend := demo_backend \<rparr>"
  have e: "\<not> exporting ?w" and t: "target ?w = None" and f: "files ?w = []"
    by (simp_all add: MainWindow_def)
  have m: "make_material demo_io (reloadOnExport (config ?w)) (backend ?w)
             = (demo_backend, Inr demo_material)"
    by (simp add: MainWindow_def demo_config_def demo_make_material_backend)
  have g: "getSaveFileName demo_io = demo_target"
    by (simp add: demo_io_def demo_target_def)
  from export_mutates_name [of demo_io demo_backend demo_material "[]" ?w demo_backend
      demo_material] e m
  have "files (window_export demo_io (\<lambda>s. s) ?w) =
          (case (case target ?w of
                   Some t \<Rightarrow> Some t
                 | None \<Rightarrow> (if getSaveFileName demo_io = [] then None
                            else Some (getSaveFileName demo_io))) of
             None \<Rightarrow> files ?w
           | Some t \<Rightarrow> snd (fst (export demo_io (pick_vmt t demo_backend) demo_material
                                    (files ?w))))"
    by blast
  then have "files (window_export demo_io (\<lambda>s. s) ?w)
               = snd (fst (export demo_io (pick_vmt demo_target demo_backend) demo_material []))"
    by (simp add: t f g) (simp add: demo_target_def)
  with e t demo_make_material_backend demo_export_files show ?thesis
    by simp
qed

section \<open>Properties of the main window\<close>

lemma export_try_material_fails:
  assumes "snd (make_material env (reloadOnExport (config w)) (backend w)) = Inl e"
  shows "export_try env n w =
           (w \<lparr> backend := fst (make_material env (reloadOnExport (config w)) (backend w)) \<rparr>, Inl e)"
  using assms
  by (cases "make_material env (reloadOnExport (config w)) (backend w)")
     (simp add: export_try_def)

lemma window_export_material_fails:
  assumes "\<not> exporting w"
    and "snd (make_material env (reloadOnExport (config w)) (backend w)) = Inl e"
    and "e \<noteq> InterruptedError"
  shows "files (window_export env (\<lambda>s. s) w) = files w"
    and "processes (window_export env (\<lambda>s. s) w) = processes w"
    and "messages (window_export env (\<lambda>s. s) w) = messages w @ [(''Failed to export!'', e)]"
    and "\<not> exporting (window_export env (\<lambda>s. s) w)"
  using assms
  by (simp_all add: window_export_def Let_def export_try_material_fails)

lemma missing_channel_assertion:
  assumes "fetch env nc b Albedo = Inr a0"
    and "a0 = None \<or> fetch env nc b Roughness = Inr None"
  shows "snd (make_material env nc b) =
           Inl (AssertionError
                  (if a0 = None then ''A basetexture is required to convert the material!''
                   else ''A roughness map is required to convert the material!''))"
proof (cases a0)
  case None
  with assms(1) show ?thesis
    by (simp add: make_material_result assemble_def)
next
  case (Some a)
  with assms show ?thesis
    by (simp add: make_material_result assemble_def)
qed

text \<open>
  Claim C5: for every channel set in which Albedo or Roughness is absent (Albedo is absent,
  or Albedo is read and Roughness is absent), \<^verbatim>\<open>make_material\<close> fails with the assertion
  about the missing channel, and the export attempt, whether it comes from Export, from
  Export As or from the watch timer, writes no file, starts no process and reports that error
  in one message box.
\<close>

theorem missing_channel_writes_nothing:
  assumes "\<not> exporting w"
    and "reloadOnExport (config w) = nc"
    and "fetch env nc (backend w) Albedo = Inr a0"
    and "a0 = None \<or> fetch env nc (backend w) Roughness = Inr None"
    and "e = AssertionError
               (if a0 = None then ''A basetexture is required to convert the material!''
                else ''A roughness map is required to convert the material!'')"
  shows "snd (make_material env nc (backend w)) = Inl e
       \<and> files (window_export env (\<lambda>s. s) w) = files w
       \<and> processes (window_export env (\<lambda>s. s) w) = processes w
       \<and> messages (window_export env (\<lambda>s. s) w) = messages w @ [(''Failed to export!'', e)]
       \<and> files (export_as env (\<lambda>s. s) w) = files w
       \<and> processes (export_as env (\<lambda>s. s) w) = processes w
       \<and> messages (export_as env (\<lambda>s. s) w) = messages w @ [(''Failed to export!'', e)]
       \<and> files (timeout env (\<lambda>s. s) w) = files w
       \<and> processes (timeout env (\<lambda>s. s) w) = processes w
       \<and> messages (timeout env (\<lambda>s. s) w) = messages w @ [(''Failed to export!'', e)]"
proof -
  have m: "snd (make_material env nc (backend w)) = Inl e"
    using missing_channel_assertion [OF assms(3,4)] assms(5) by simp
  have n: "e \<noteq> InterruptedError"
    using assms(5) by simp
  have 1: "files (window_export env (\<lambda>s. s) w) = files w"
    "processes (window_export env (\<lambda>s. s) w) = processes w"
    "messages (window_export env (\<lambda>s. s) w) = messages w @ [(''Failed to export!'', e)]"
    using window_export_material_fails [of w env e] assms(1,2) m n by simp_all
  have 2: "files (export_as env (\<lambda>s. s) w) = files w"
    "processes (export_as env (\<lambda>s. s) w) = processes w"
    "messages (export_as env (\<lambda>s. s) w) = messages w @ [(''Failed to export!'', e)]"
    using window_export_material_fails [of "w \<lparr> target := None \<rparr>" env e] assms(1,2) m n
    by (simp_all add: export_as_def)
  have 3: "files (timeout env (\<lambda>s. s) w) = files w"
    "processes (timeout env (\<lambda>s. s) w) = processes w"
    "messages (timeout env (\<lambda>s. s) w) = messages w @ [(''Failed to export!'', e)]"
    using window_export_material_fails [of "w \<lparr> watcherCooldown := False \<rparr>" env e]
      assms(1,2) m n
    by (simp_all add: timeout_def)
  from m 1 2 3 show ?thesis by simp
qed

theorem missing_channel_writes_nothing_witness:
  "\<not> exporting ((MainWindow demo_config V2011 PBRModel :: nat main_window)
                   \<lparr> backend := (CoreBackend V2011 PBRModel)
                        \<lparr> metallic := Some (bitmap 2), normal := Some (bitmap 4) \<rparr> \<rparr>)
   \<and> fetch demo_io False
        ((CoreBackend V2011 PBRModel) \<lparr> metallic := Some (bitmap 2), normal := Some (bitmap 4) \<rparr>)
        Albedo = Inr None
   \<and> files (window_export demo_io (\<lambda>s. s)
               ((MainWindow demo_config V2011 PBRModel)
                  \<lparr> backend := (CoreBackend V2011 PBRModel)
                       \<lparr> metallic := Some (bitmap 2), normal := Some (bitmap 4) \<rparr> \<rparr>)) = []
   \<and> messages (window_export demo_io (\<lambda>s. s)
                  ((MainWindow demo_config V2011 PBRModel)
                     \<lparr> backend := (CoreBackend V2011 PBRModel)
                          \<lparr> metallic := Some (bitmap 2), normal := Some (bitmap 4) \<rparr> \<rparr>))
       = [(''Failed to export!'',
           AssertionError ''A basetexture is required to convert the material!'')]"
proof -
  let ?b = "(CoreBackend V2011 PBRModel) \<lparr> metallic := Some (bitmap 2), normal := Some (bitmap 4) \<rparr>"
  let ?w = "(MainWindow demo_config V2011 PBRModel :: nat main_window) \<lparr> backend := ?b \<rparr>"
  let ?e = "AssertionError ''A basetexture is required to convert the material!''"
  have e: "\<not> exporting ?w"
    by (simp add: MainWindow_def)
  have c: "reloadOnExport (config ?w) = False"
    by (simp add: MainWindow_def demo_config_def)
  have a: "fetch demo_io False (backend ?w) Albedo = Inr None"
    by (simp add: fetch_def CoreBackend_def)
  have d: "None = None \<or> fetch demo_io False (backend ?w) Roughness = Inr None"
    by simp
  have x: "?e = AssertionError
                  (if (None :: image option) = None
                   then ''A basetexture is required to convert the material!''
                   else ''A roughness map is required to convert the material!'')"
    by simp
  from missing_channel_writes_nothing [OF e c a d x]
  have "files (window_export demo_io (\<lambda>s. s) ?w) = files ?w"
    and "messages (window_export demo_io (\<lambda>s. s) ?w) = messages ?w @ [(''Failed to export!'', ?e)]"
    by blast+
  then have "files (window_export demo_io (\<lambda>s. s) ?w) = []"
    and "messages (window_export demo_io (\<lambda>s. s) ?w) = [(''Failed to export!'', ?e)]"
    by (simp_all add: MainWindow_def)
  with e a show ?thesis by simp
qed

lemma export_try_hooks:
  assumes "\<And>s. exporting s \<Longrightarrow> (c \<longrightarrow> \<not> watcherCooldown s) \<Longrightarrow> n s = s"
    and "exporting w" and "c \<longrightarrow> \<not> watcherCooldown w"
  shows "export_try env n w = export_try env (\<lambda>s. s) w"
proof -
  have "pick_target env n (w \<lparr> backend := b, progressBar := 50 \<rparr>)
          = pick_target env (\<lambda>s. s) (w \<lparr> backend := b, progressBar := 50 \<rparr>)" for b
    using assms by (simp add: pick_target_def)
  then show ?thesis
    by (simp add: export_try_def Let_def
        cong: prod.case_cong sum.case_cong option.case_cong if_cong)
qed

lemma export_try_keeps:
  "exporting (fst (export_try env (\<lambda>s. s) w)) = exporting w"
  "watcherCooldown (fst (export_try env (\<lambda>s. s) w)) = watcherCooldown w"
  by (simp_all add: export_try_def pick_target_def Let_def
      split: prod.splits sum.splits option.splits)

lemma window_export_hooks:
  assumes h: "\<And>s. exporting s \<Longrightarrow> (c \<longrightarrow> \<not> watcherCooldown s) \<Longrightarrow> n s = s"
    and w: "\<not> exporting w"
    and v: "n (w \<lparr> exporting := True, exportButton := False, progressBar := 0 \<rparr>)
              = v \<lparr> exporting := True, exportButton := False, progressBar := 0 \<rparr>"
    and c: "c \<longrightarrow> \<not> watcherCooldown v" and e: "\<not> exporting v"
  shows "window_export env n w = window_export env (\<lambda>s. s) v"
proof -
  let ?v0 = "v \<lparr> exporting := True, exportButton := False, progressBar := 0 \<rparr>"
  have t: "export_try env n ?v0 = export_try env (\<lambda>s. s) ?v0"
    using c by (intro export_try_hooks [of c n]) (simp_all add: h)
  obtain w' r where r: "export_try env (\<lambda>s. s) ?v0 = (w', r)"
    by (cases "export_try env (\<lambda>s. s) ?v0")
  then have k: "exporting w'" "c \<longrightarrow> \<not> watcherCooldown w'"
    using export_try_keeps [of env ?v0] c by simp_all
  have m: "n (w' \<lparr> progressBar := 0, messages := ms \<rparr>) = w' \<lparr> progressBar := 0, messages := ms \<rparr>"
    for ms
    using k by (intro h) simp_all
  show ?thesis
    using w e by (simp add: window_export_def v t r m Let_def split: sum.splits)
qed

lemma cooldown_idle: "\<not> watcherCooldown s \<Longrightarrow> s \<lparr> watcherCooldown := False \<rparr> = s"
  by (cases s) simp

lemma guard_exporting:
  "exporting s \<Longrightarrow> window_export env n s = s"
  "exporting s \<Longrightarrow> export_as env n s = s"
  "exporting s \<Longrightarrow> timeout env n s = s \<lparr> watcherCooldown := False \<rparr>"
  by (simp_all add: window_export_def export_as_def timeout_def)

lemma window_export_done:
  "\<not> exporting w \<Longrightarrow> \<not> exporting (window_export env (\<lambda>s. s) w)"
  by (simp add: window_export_def Let_def split: prod.splits sum.splits)

text \<open>
  Claim C6: while the flag \<^verbatim>\<open>exporting\<close> is set, the slots \<^verbatim>\<open>export\<close> and
  \<^verbatim>\<open>export_as\<close> return the window as it was (nothing written, no message, no process, the
  target kept), and the timer's timeout, which calls \<^verbatim>\<open>export\<close>, changes nothing but the
  timer. An export sets the flag before it hands control to the event loop: a trigger of any
  source that the loop delivers while the export runs (at \<^verbatim>\<open>processEvents()\<close>, during the
  save dialog or during the message box) leaves the running export exactly what it is with
  nothing delivered, so no second export runs inside the first. When the export ends the flag
  is cleared.
\<close>

theorem export_guard:
  "(exporting w \<longrightarrow>
      window_export env n w = w \<and> export_as env n w = w
    \<and> timeout env n w = w \<lparr> watcherCooldown := False \<rparr>)
   \<and> (\<not> exporting w \<longrightarrow>
        window_export env (window_export env1 n1) w = window_export env (\<lambda>s. s) w
      \<and> window_export env (export_as env1 n1) w = window_export env (\<lambda>s. s) w
      \<and> window_export env (timeout env1 n1) w
          = window_export env (\<lambda>s. s) (w \<lparr> watcherCooldown := False \<rparr>)
      \<and> export_as env (window_export env1 n1) w = export_as env (\<lambda>s. s) w
      \<and> timeout env (window_export env1 n1) w = timeout env (\<lambda>s. s) w
      \<and> \<not> exporting (window_export env (\<lambda>s. s) w))"
proof (intro conjI impI)
  assume "exporting w"
  then show "window_export env n w = w" "export_as env n w = w"
    "timeout env n w = w \<lparr> watcherCooldown := False \<rparr>"
    by (simp_all add: guard_exporting)
next
  assume w: "\<not> exporting w"
  show 1: "window_export env (window_export env1 n1) w = window_export env (\<lambda>s. s) w"
    by (rule window_export_hooks [of False]) (simp_all add: guard_exporting w)
  show "window_export env (export_as env1 n1) w = window_export env (\<lambda>s. s) w"
    by (rule window_export_hooks [of False]) (simp_all add: guard_exporting w)
  show "window_export env (timeout env1 n1) w
          = window_export env (\<lambda>s. s) (w \<lparr> watcherCooldown := False \<rparr>)"
    by (rule window_export_hooks [of True]) (simp_all add: guard_exporting cooldown_idle w)
  show "export_as env (window_export env1 n1) w = export_as env (\<lambda>s. s) w"
    using w
    by (simp add: export_as_def
        window_export_hooks [of False "window_export env1 n1" "w \<lparr> target := None \<rparr>"
          "w \<lparr> target := None \<rparr>"] guard_exporting)
  show "timeout env (window_export env1 n1) w = timeout env (\<lambda>s. s) w"
    using w
    by (simp add: timeout_def
        window_export_hooks [of False "window_export env1 n1" "w \<lparr> watcherCooldown := False \<rparr>"
          "w \<lparr> watcherCooldown := False \<rparr>"] guard_exporting)
  show "\<not> exporting (window_export env (\<lambda>s. s) w)"
    using w by (rule window_export_done)
qed

theorem export_guard_witness:
  "exporting ((MainWindow demo_config V2011 PBRModel :: nat main_window) \<lparr> exporting := True \<rparr>)
   \<and> window_export demo_io (\<lambda>s. s)
         ((MainWindow demo_config V2011 PBRModel) \<lparr> exporting := True \<rparr>)
       = (MainWindow demo_config V2011 PBRModel) \<lparr> exporting := True \<rparr>
   \<and> \<not> exporting ((MainWindow demo_config V2011 PBRModel :: nat main_window)
                      \<lparr> backend := demo_backend \<rparr>)
   \<and> map fst (files (window_export demo_io (window_export demo_io (\<lambda>s. s))
                        ((MainWindow demo_config V2011 PBRModel) \<lparr> backend := demo_backend \<rparr>)))
       = [\<lparr> root = ''/'', comps = [''a'', ''materials'', ''b'', ''c.vmt''] \<rparr>,
          \<lparr> root = ''/'', comps = [''a'', ''materials'', ''b'', ''c_albedo.vtf''] \<rparr>,
          \<lparr> root = ''/'', comps = [''a'', ''materials'', ''b'', ''c_bump.vtf''] \<rparr>]"
proof -
  let ?x = "(MainWindow demo_config V2011 PBRModel :: nat main_window) \<lparr> exporting := True \<rparr>"
  let ?w = "(MainWindow demo_config V2011 PBRModel :: nat main_window) \<lparr> backend := demo_backend \<rparr>"
  have x: "exporting ?x" by simp
  have w: "\<not> exporting ?w" and t: "target ?w = None" and f: "files ?w = []"
    by (simp_all add: MainWindow_def)
  from export_guard [of ?x demo_io "\<lambda>s. s"] x
  have 1: "window_export demo_io (\<lambda>s. s) ?x = ?x"
    by blast
  from export_guard [of ?w demo_io _ demo_io "\<lambda>s. s"] w
  have 2: "window_export demo_io (window_export demo_io (\<lambda>s. s)) ?w
             = window_export demo_io (\<lambda>s. s) ?w"
    by blast
  have m: "make_material demo_io (reloadOnExport (config ?w)) (backend ?w)
             = (demo_backend, Inr demo_material)"
    by (simp add: MainWindow_def demo_config_def demo_make_material_backend)
  have g: "getSaveFileName demo_io = demo_target"
    by (simp add: demo_io_def demo_target_def)
  have "files (window_export demo_io (\<lambda>s. s) ?w)
          = snd (fst (export demo_io (pick_vmt demo_target demo_backend) demo_material []))"
    using window_export_files [OF w m] by (simp add: t f g) (simp add: demo_target_def)
  with 1 2 x w demo_export_files show ?thesis
    by simp
qed

lemma set_not_none: "set (not_none xs) = {x. Some x \<in> set xs}"
  by (induction xs rule: not_none.induct) auto

lemma channel_paths_iff: "s \<in> set (channel_paths b) \<longleftrightarrow> (\<exists>role. get_path role b = Some s)"
proof
  assume "s \<in> set (channel_paths b)"
  then consider "albedoPath b = Some s" | "roughnessPath b = Some s" | "metallicPath b = Some s"
    | "emitPath b = Some s" | "aoPath b = Some s" | "normalPath b = Some s" | "heightPath b = Some s"
    by (auto simp: channel_paths_def set_not_none)
  then show "\<exists>role. get_path role b = Some s"
  proof cases
    case 1 then have "get_path Albedo b = Some s" by simp then show ?thesis by blast
  next
    case 2 then have "get_path Roughness b = Some s" by simp then show ?thesis by blast
  next
    case 3 then have "get_path Metallic b = Some s" by simp then show ?thesis by blast
  next
    case 4 then have "get_path Emit b = Some s" by simp then show ?thesis by blast
  next
    case 5 then have "get_path AO b = Some s" by simp then show ?thesis by blast
  next
    case 6 then have "get_path Normal b = Some s" by simp then show ?thesis by blast
  next
    case 7 then have "get_path Height b = Some s" by simp then show ?thesis by blast
  qed
next
  assume "\<exists>role. get_path role b = Some s"
  then obtain role where "get_path role b = Some s" by blast
  then show "s \<in> set (channel_paths b)"
    by (cases role) (simp_all add: channel_paths_def set_not_none)
qed

lemma removePaths_all: "removePaths fs fs = []"
  by (simp add: removePaths_def)

lemma reset_watch_watcher:
  "watching w \<Longrightarrow> watcher (reset_watch w) = remdups (channel_paths (backend w))"
  by (simp add: reset_watch_def start_watch_def stop_watch_def removePaths_all addPaths_def)

lemma reset_watch_backend: "backend (reset_watch w) = backend w"
  by (simp add: reset_watch_def start_watch_def stop_watch_def)

lemma demo_decode_a: "decode demo_io ''a.png'' = Some (2, bitmap 2)"
  by (simp add: decode_def demo_io_def endswith_def)

lemma demo_picked:
  "snd (picked demo_io Albedo (Some (Path ''a.png'')) demo_window) = Inr ()"
  by (simp add: picked_def pick_def convert_def bind_raise_def demo_decode_a Path_def
      splitroot_def str_path_def Let_def)

text \<open>
  Claim C9: after a pick or clear that succeeds while the window is watching, the watcher
  holds, once each, exactly the paths stored in the backend: a path is watched if and only if
  it is the stored path of some role.
\<close>

theorem picked_resets_watch:
  assumes "watching w" and "picked env kind p w = (w', Inr u)"
  shows "set (watcher w') = set (channel_paths (backend w'))
       \<and> distinct (watcher w')
       \<and> (\<forall>s. s \<in> set (watcher w') \<longleftrightarrow> (\<exists>role. get_path role (backend w') = Some s))"
proof -
  obtain b r where pk:
    "pick env (case p of None \<Rightarrow> None | Some q \<Rightarrow> Some (str_path q)) kind (backend w) = (b, r)"
    by (cases "pick env (case p of None \<Rightarrow> None | Some q \<Rightarrow> Some (str_path q)) kind (backend w)")
  with assms(2) obtain img where r: "r = Inr img"
    by (cases r) (simp_all add: picked_def)
  define w1 where "w1 = reset_watch (w \<lparr> backend := b \<rparr>)"
  from assms(2) pk r have w': "w' = w1 \<lparr> icons := (icons w1) (kind := img) \<rparr>"
    by (simp add: picked_def w1_def Let_def)
  from assms(1) have "watcher w1 = remdups (channel_paths b)"
    by (simp add: w1_def reset_watch_watcher)
  moreover have "backend w1 = b"
    by (simp add: w1_def reset_watch_backend)
  ultimately have "watcher w' = remdups (channel_paths (backend w'))"
    by (simp add: w')
  then show ?thesis
    by (simp add: channel_paths_iff)
qed

theorem picked_resets_watch_witness:
  "watching demo_window
   \<and> snd (picked demo_io Albedo (Some (Path ''a.png'')) demo_window) = Inr ()
   \<and> set (watcher (fst (picked demo_io Albedo (Some (Path ''a.png'')) demo_window)))
       = {''a.png''}"
proof -
  let ?r = "picked demo_io Albedo (Some (Path ''a.png'')) demo_window"
  have w: "watching demo_window"
    by (simp add: demo_window_eq)
  have e: "?r = (fst ?r, Inr ())"
    using demo_picked by (cases ?r) simp
  have b: "channel_paths (backend (fst ?r)) = [''a.png'']"
    by (simp add: picked_def pick_def convert_def bind_raise_def demo_decode_a Path_def
        splitroot_def str_path_def Let_def reset_watch_backend channel_paths_def
        demo_window_eq MainWindow_def CoreBackend_def)
  from picked_resets_watch [OF w e]
  have "set (watcher (fst ?r)) = set (channel_paths (backend (fst ?r)))"
    by blast
  with b w demo_picked show ?thesis by simp
qed

end
